theory Spec2Isabelle
  imports Main "HOL-Library.Word" "HOL-Library.Signed_Division" "HOL-Library.AList"
begin

unbundle bit_operations_syntax

chapter \<open>The client orchestrator of \<open>client.go\<close>: model\<close>

section \<open>Machine integers, panics and errors\<close>

text \<open>
  Go's \<open>int\<close> (on 64-bit platforms) and \<open>time.Duration\<close> (an \<open>int64\<close>) are 64-bit
  two's complement integers: addition wraps, division truncates towards zero and
  panics on a zero divisor. A panic is the left summand of a function's result.
\<close>

type_synonym int64 = "64 word"
type_synonym byte = "8 word"

text \<open>
  Error values. \<open>ErrNoSecretKeyMatch\<close> is the sentinel \<open>mse.ErrNoSecretKeyMatch\<close>,
  \<open>ErrUnusedTrailingBytes\<close> an error of the type \<open>bencode.ErrUnusedTrailingBytes\<close>,
  \<open>ErrorString\<close> an error made by \<open>errors.New\<close> or \<open>fmt.Errorf\<close> from a message
  alone, \<open>ErrorWrap\<close> one that \<open>fmt.Errorf\<close> makes from a message and another error,
  \<open>ExternalError\<close> an error produced by code outside \<open>client.go\<close>.
\<close>

datatype error =
    ErrNoSecretKeyMatch
  | ErrUnusedTrailingBytes
  | ErrorString string
  | ErrorWrap string error
  | ExternalError nat

datatype panic = DivideByZero | PanicValue string | PanicError error

definition go_div :: "int64 \<Rightarrow> int64 \<Rightarrow> panic + int64" where
  "go_div a b =
     (if b = 0 then Inl DivideByZero else Inr (word_of_int (sint a sdiv sint b)))"

section \<open>Dial timeout\<close>

text \<open>
  \<^verbatim>\<open>
  func reducedDialTimeout(minDialTimeout, max time.Duration, halfOpenLimit int, pendingPeers int) (ret time.Duration) {
      ret = max / time.Duration((pendingPeers+halfOpenLimit)/halfOpenLimit)
      if ret < minDialTimeout {
          ret = minDialTimeout
      }
      return
  }
  \<close>
\<close>

definition reducedDialTimeout :: "int64 \<Rightarrow> int64 \<Rightarrow> int64 \<Rightarrow> int64 \<Rightarrow> panic + int64" where
  "reducedDialTimeout minDialTimeout maxTimeout halfOpenLimit pendingPeers =
     (case go_div (pendingPeers + halfOpenLimit) halfOpenLimit of
        Inl e \<Rightarrow> Inl e
      | Inr n \<Rightarrow>
          (case go_div maxTimeout n of
             Inl e \<Rightarrow> Inl e
           | Inr ret \<Rightarrow> Inr (if sint ret < sint minDialTimeout then minDialTimeout else ret)))"

text \<open>
  The dial timeout as the specification words it, on mathematical integers: the
  nominal timeout divided by the ceiling of \<open>(pending + limit) / limit\<close>, floored at
  the minimum.
\<close>

definition ceiling_div :: "int \<Rightarrow> int \<Rightarrow> int" where
  "ceiling_div a b = - ((- a) div b)"

definition spec_dial_timeout :: "int \<Rightarrow> int \<Rightarrow> int \<Rightarrow> int \<Rightarrow> int" where
  "spec_dial_timeout minDialTimeout maxTimeout halfOpenLimit pendingPeers =
     (let q = maxTimeout div ceiling_div (pendingPeers + halfOpenLimit) halfOpenLimit
      in if q < minDialTimeout then minDialTimeout else q)"

section \<open>IP addresses\<close>

text \<open>
  \<open>net.IP\<close> is a byte slice, with \<open>nil\<close> the empty list. \<open>To4\<close>, \<open>Mask\<close>,
  \<open>CIDRMask\<close> and \<open>String\<close> are the functions of Go's \<open>net\<close> package that
  \<open>client.go\<close> calls; \<open>To4\<close> returns \<open>nil\<close> (here \<open>None\<close>) for an address that
  is not IPv4.
\<close>

type_synonym IP = "byte list"

definition v4InV6Prefix :: "byte list" where
  "v4InV6Prefix = [0, 0, 0, 0, 0, 0, 0, 0, 0, 0, 0xff, 0xff]"

definition To4 :: "IP \<Rightarrow> IP option" where
  "To4 ip =
     (if length ip = 4 then Some ip
      else if length ip = 16 \<and> take 12 ip = v4InV6Prefix then Some (drop 12 ip)
      else None)"

definition CIDRMask :: "nat \<Rightarrow> nat \<Rightarrow> byte list" where
  "CIDRMask ones bits =
     (if (bits \<noteq> 32 \<and> bits \<noteq> 128) \<or> bits < ones then []
      else map (\<lambda>i. if 8 * (i + 1) \<le> ones then 0xff
                     else if ones \<le> 8 * i then 0
                     else NOT (mask (8 - (ones - 8 * i)))) [0 ..< bits div 8])"

definition Mask :: "IP \<Rightarrow> byte list \<Rightarrow> IP" where
  "Mask ip0 mask0 =
     (let mask1 = (if length mask0 = 16 \<and> length ip0 = 4 \<and> take 12 mask0 = replicate 12 0xff
                   then drop 12 mask0 else mask0);
          ip1 = (if length mask1 = 4 \<and> length ip0 = 16 \<and> take 12 ip0 = v4InV6Prefix
                 then drop 12 ip0 else ip0)
      in if length ip1 \<noteq> length mask1 then []
         else map (\<lambda>(b, m). b AND m) (zip ip1 mask1))"

text \<open>\<open>ubtoa\<close>: the decimal digits of one byte, as \<open>net.IP.String\<close> writes them.\<close>

definition digit :: "nat \<Rightarrow> char" where
  "digit n = ''0123456789'' ! n"

definition ubtoa :: "byte \<Rightarrow> string" where
  "ubtoa v =
     (let n = unat v in
      if n < 10 then [digit n]
      else if n < 100 then [digit (n div 10), digit (n mod 10)]
      else [digit (n div 100), digit ((n div 10) mod 10), digit (n mod 10)])"

definition dotted :: "IP \<Rightarrow> string" where
  "dotted p4 =
     ubtoa (p4 ! 0) @ ''.'' @ ubtoa (p4 ! 1) @ ''.'' @ ubtoa (p4 ! 2) @ ''.'' @ ubtoa (p4 ! 3)"

text \<open>
  \<open>ip.String()\<close>: dotted decimal for an IPv4 address (in its 4-byte or its 16-byte
  form); every other rendering (IPv6 text, \<open><nil>\<close>, the \<open>?\<close> form of a slice of
  a wrong length) is left to the parameter \<open>str6\<close>.
\<close>

definition IP_String :: "(IP \<Rightarrow> string) \<Rightarrow> IP \<Rightarrow> string" where
  "IP_String str6 ip = (case To4 ip of Some p4 \<Rightarrow> dotted p4 | None \<Rightarrow> str6 ip)"

text \<open>\<open>strconv.FormatInt(i, 10)\<close> and \<open>net.JoinHostPort\<close>.\<close>

function uitoa :: "nat \<Rightarrow> string" where
  "uitoa n = (if n < 10 then [digit n] else uitoa (n div 10) @ [digit (n mod 10)])"
  by pat_completeness auto
termination
  by (relation "measure (\<lambda>n. n)") auto

definition FormatInt :: "int64 \<Rightarrow> string" where
  "FormatInt i = (if sint i < 0 then CHR ''-'' # uitoa (nat (- sint i)) else uitoa (nat (sint i)))"

definition JoinHostPort :: "string \<Rightarrow> string \<Rightarrow> string" where
  "JoinHostPort host port =
     (if CHR '':'' \<in> set host then ''['' @ host @ '']:'' @ port else host @ '':'' @ port)"

text \<open>
  \<^verbatim>\<open>
  func maskIpForAcceptLimiting(ip net.IP) net.IP {
      if ip4 := ip.To4(); ip4 != nil {
          return ip4.Mask(net.CIDRMask(24, 32))
      }
      return ip
  }
  \<close>
\<close>

definition maskIpForAcceptLimiting :: "IP \<Rightarrow> IP" where
  "maskIpForAcceptLimiting ip =
     (case To4 ip of Some ip4 \<Rightarrow> Mask ip4 (CIDRMask 24 32) | None \<Rightarrow> ip)"

section \<open>Data model\<close>

text \<open>
  Hashes and peer ids are 20-byte arrays. Pointers to torrents are indices into a heap
  of torrents; listeners, DHT servers, storage back-ends, on-close callbacks and port
  mappings are opaque handles.
\<close>

type_synonym Hash = "byte list"
type_synonym PeerID = "byte list"
type_synonym torrent_ref = nat
type_synonym socket = nat
type_synonym DhtServer = nat
type_synonym storage = nat
type_synonym callback = nat
type_synonym upnpMapping = nat

record IpPort =
  IP :: IP
  Port :: "16 word"

text \<open>The fields of \<open>ClientConfig\<close> that \<open>client.go\<close> reads in the functions below.\<close>

record ClientConfig =
  DisableEncryption :: bool
  ForceEncryption :: bool
  PreferNoEncryption :: bool
  DisableIPv4Peers :: bool
  DisableIPv4 :: bool
  DisableIPv6 :: bool
  DisableAcceptRateLimiting :: bool
  PeriodicallyAnnounceTorrentsToDht :: bool
  EstablishedConnsPerTorrent :: int64
  Debug :: bool

text \<open>
  A torrent, with the fields that \<open>newTorrent\<close> sets. The fields that
  \<open>torrent.go\<close> declares beside these, and that \<open>client.go\<close> never names, are the
  component \<open>other\<close>, of a type the model leaves open.
\<close>

record 'x Torrent =
  infoHash :: Hash
  peers :: "IpPort list"
  conns_t :: "nat set"
  halfOpen :: "string set"
  storageOpener :: storage
  maxEstablishedConns :: int64
  networkingEnabled :: bool
  requestStrategy :: int64
  duplicateRequestTimeout :: int64
  chunkSize :: int64
  other :: 'x

text \<open>
  What a call leaves behind outside the client's own fields: a broadcast on the shared
  condition variable \<open>cl.event\<close>, a goroutine started, a listener closed, a callback
  run, a port mapping removed, an \<open>expvar\<close> counter bumped by \<open>torrent.Add(name, 1)\<close>,
  the start of an outgoing attempt (with the flag \<open>obfuscatedHeader\<close> of
  \<open>establishOutgoingConnEx\<close>), and the calls into the dialer, the handshake and the
  connection code: the race of dials, \<open>mse.InitiateHandshake\<close> (with the crypto methods
  offered), \<open>pp.Handshake\<close>, \<open>addConnection\<close>, \<open>dropConnection\<close>, the writer
  goroutine, the read loop, and the closing of a network connection.
\<close>

datatype effect =
    EventBroadcast
  | GoDhtAnnouncer torrent_ref DhtServer
  | SocketClose socket
  | OnCloseCall callback
  | PortMappingCleared upnpMapping
  | CounterAdd string
  | OutgoingAttempt bool
  | CallDialFirst
  | CallMseInitiate nat
  | CallBTHandshake
  | CallAddConnection nat torrent_ref
  | CallDropConnection nat torrent_ref
  | GoWriter nat
  | CallMainReadLoop nat
  | NetConnClose nat

text \<open>
  The client. The fields are those of the \<open>Client\<close> struct; \<open>closed\<close> is the
  one-way event, \<open>torrents\<close> the map from info hash to torrent pointer (an
  association list with distinct keys, whose order stands for the order in which a
  \<open>range\<close> loop happens to visit the map), \<open>acceptLimiter\<close> a map that may be
  \<open>nil\<close>. Two components are the model's own: \<open>heap\<close>, the torrents that the
  pointers refer to, and \<open>effects\<close>, the log of effects in the order they happen.
\<close>

record 'x Client =
  closed :: bool
  config :: ClientConfig
  peerID :: PeerID
  defaultStorage :: storage
  onClose :: "callback list"
  conns :: "socket list"
  dhtServers :: "DhtServer list"
  ipBlockList :: "(IP \<Rightarrow> bool) option"
  extensionBytes :: "byte list"
  dopplegangerAddrs :: "string set"
  badPeerIPs :: "string set"
  torrents :: "(Hash \<times> torrent_ref) list"
  acceptLimiter :: "(string \<rightharpoonup> int64) option"
  numHalfOpen :: int64
  upnpMappings :: "upnpMapping list"
  heap :: "'x Torrent list"
  effects :: "effect list"

definition emit :: "effect list \<Rightarrow> 'x Client \<Rightarrow> 'x Client" where
  "emit es cl = cl\<lparr>effects := effects cl @ es\<rparr>"

section \<open>Admission of accepted connections\<close>

text \<open>Reading a Go map of integers: a missing key, or a \<open>nil\<close> map, reads as 0.\<close>

definition limiter_get :: "(string \<rightharpoonup> int64) option \<Rightarrow> string \<Rightarrow> int64" where
  "limiter_get m k =
     (case m of None \<Rightarrow> 0 | Some f \<Rightarrow> (case f k of None \<Rightarrow> 0 | Some v \<Rightarrow> v))"

text \<open>
  \<^verbatim>\<open>
  func (cl *Client) onBadAccept(addr IpPort) {
      ip := maskIpForAcceptLimiting(addr.IP)
      if cl.acceptLimiter == nil {
          cl.acceptLimiter = make(map[ipStr]int)
      }
      cl.acceptLimiter[ipStr(ip.String())]++
  }
  func (cl *Client) clearAcceptLimits() { cl.acceptLimiter = nil }
  func (cl *Client) rateLimitAccept(ip net.IP) bool {
      if cl.config.DisableAcceptRateLimiting { return false }
      return cl.acceptLimiter[ipStr(maskIpForAcceptLimiting(ip).String())] > 0
  }
  \<close>
\<close>

definition onBadAccept :: "(IP \<Rightarrow> string) \<Rightarrow> 'x Client \<Rightarrow> IpPort \<Rightarrow> 'x Client" where
  "onBadAccept str6 cl addr =
     (let ip = maskIpForAcceptLimiting (IP addr);
          m = (case acceptLimiter cl of None \<Rightarrow> Map.empty | Some f \<Rightarrow> f);
          k = IP_String str6 ip
      in cl\<lparr>acceptLimiter := Some (m(k \<mapsto> limiter_get (Some m) k + 1))\<rparr>)"

definition clearAcceptLimits :: "'x Client \<Rightarrow> 'x Client" where
  "clearAcceptLimits cl = cl\<lparr>acceptLimiter := None\<rparr>"

definition rateLimitAccept :: "(IP \<Rightarrow> string) \<Rightarrow> 'x Client \<Rightarrow> IP \<Rightarrow> bool" where
  "rateLimitAccept str6 cl ip =
     (if DisableAcceptRateLimiting (config cl) then False
      else 0 < sint (limiter_get (acceptLimiter cl)
                       (IP_String str6 (maskIpForAcceptLimiting ip))))"

text \<open>
  \<^verbatim>\<open>
  func (cl *Client) dopplegangerAddr(addr string) bool {
      _, ok := cl.dopplegangerAddrs[addr]
      return ok
  }
  func (cl *Client) ipBlockRange(ip net.IP) (r iplist.Range, blocked bool) {
      if cl.ipBlockList == nil { return }
      return cl.ipBlockList.Lookup(ip)
  }
  func (cl *Client) badPeerIPPort(ip net.IP, port int) bool {
      if port == 0 { return true }
      if cl.dopplegangerAddr(net.JoinHostPort(ip.String(), strconv.FormatInt(int64(port), 10))) { return true }
      if _, ok := cl.ipBlockRange(ip); ok { return true }
      if _, ok := cl.badPeerIPs[ip.String()]; ok { return true }
      return false
  }
  \<close>
  Of a block list only the answer of \<open>Lookup\<close>, whether the address is in a range,
  is used.
\<close>

definition dopplegangerAddr :: "'x Client \<Rightarrow> string \<Rightarrow> bool" where
  "dopplegangerAddr cl addr = (addr \<in> dopplegangerAddrs cl)"

definition ipBlockRange :: "'x Client \<Rightarrow> IP \<Rightarrow> bool" where
  "ipBlockRange cl ip = (case ipBlockList cl of None \<Rightarrow> False | Some lookup \<Rightarrow> lookup ip)"

definition badPeerIPPort :: "(IP \<Rightarrow> string) \<Rightarrow> 'x Client \<Rightarrow> IP \<Rightarrow> int64 \<Rightarrow> bool" where
  "badPeerIPPort str6 cl ip port =
     (if port = 0 then True
      else if dopplegangerAddr cl (JoinHostPort (IP_String str6 ip) (FormatInt port)) then True
      else if ipBlockRange cl ip then True
      else if IP_String str6 ip \<in> badPeerIPs cl then True
      else False)"

text \<open>
  \<^verbatim>\<open>
  func (cl *Client) rejectAccepted(conn net.Conn) bool {
      ra := conn.RemoteAddr()
      rip := missinggo.AddrIP(ra)
      if cl.config.DisableIPv4Peers && rip.To4() != nil { return true }
      if cl.config.DisableIPv4 && len(rip) == net.IPv4len { return true }
      if cl.config.DisableIPv6 && len(rip) == net.IPv6len && rip.To4() == nil { return true }
      if cl.rateLimitAccept(rip) { return true }
      return cl.badPeerIPPort(rip, missinggo.AddrPort(ra))
  }
  \<close>
  The accepted connection is given by the IP and the port of its remote address.
\<close>

definition rejectAccepted :: "(IP \<Rightarrow> string) \<Rightarrow> 'x Client \<Rightarrow> IP \<Rightarrow> int64 \<Rightarrow> bool" where
  "rejectAccepted str6 cl rip rport =
     (if DisableIPv4Peers (config cl) \<and> To4 rip \<noteq> None then True
      else if DisableIPv4 (config cl) \<and> length rip = 4 then True
      else if DisableIPv6 (config cl) \<and> length rip = 16 \<and> To4 rip = None then True
      else if rateLimitAccept str6 cl rip then True
      else badPeerIPPort str6 cl rip rport)"

section \<open>The registry of torrents\<close>

text \<open>
  The methods of \<open>Torrent\<close> and the constants that the registry operations use and
  that other files define: the zero value of the fields of a torrent that \<open>client.go\<close>
  never names, \<open>defaultChunkSize\<close>, \<open>storage.NewClient\<close>,
  \<open>(*Torrent).updateWantPeersEvent\<close> and \<open>(*Torrent).close\<close>, which returns an
  error. They act on the torrent they are called on.
\<close>

record 'x registry_env =
  zeroOther :: 'x
  defaultChunkSize :: int64
  storage_NewClient :: "storage \<Rightarrow> storage"
  updateWantPeersEvent :: "'x Torrent \<Rightarrow> 'x Torrent"
  Torrent_close :: "'x Torrent \<Rightarrow> error option \<times> 'x Torrent"

text \<open>
  \<^verbatim>\<open>
  func (cl *Client) newTorrent(ih metainfo.Hash, specStorage storage.ClientImpl) (t *Torrent) {
      storageClient := cl.defaultStorage
      if specStorage != nil {
          storageClient = storage.NewClient(specStorage)
      }
      t = &Torrent{
          cl: cl, infoHash: ih,
          peers: prioritizedPeers{om: btree.New(32), getPrio: ...},
          conns: make(map[*connection]struct{}, 2*cl.config.EstablishedConnsPerTorrent),
          halfOpen: make(map[string]Peer),
          pieceStateChanges: pubsub.NewPubSub(),
          storageOpener: storageClient,
          maxEstablishedConns: cl.config.EstablishedConnsPerTorrent,
          networkingEnabled: true,
          requestStrategy: 3,
          metadataChanged: sync.Cond{L: cl.locker()},
          duplicateRequestTimeout: 1 * time.Second,
      }
      t.logger = cl.logger.WithContextValue(t)
      t.setChunkSize(defaultChunkSize)
      return
  }
  \<close>
  The model builds the value; its caller puts it on the heap.
\<close>

definition newTorrent ::
  "'x registry_env \<Rightarrow> 'x Client \<Rightarrow> Hash \<Rightarrow> storage option \<Rightarrow> 'x Torrent" where
  "newTorrent env cl ih specStorage =
     (let storageClient =
            (case specStorage of None \<Rightarrow> defaultStorage cl | Some s \<Rightarrow> storage_NewClient env s)
      in \<lparr>infoHash = ih, peers = [], conns_t = {}, halfOpen = {},
          storageOpener = storageClient,
          maxEstablishedConns = EstablishedConnsPerTorrent (config cl),
          networkingEnabled = True, requestStrategy = 3,
          duplicateRequestTimeout = 1000000000,
          chunkSize = defaultChunkSize env, other = zeroOther env\<rparr>)"

text \<open>
  \<^verbatim>\<open>
  func (cl *Client) AddTorrentInfoHashWithStorage(infoHash metainfo.Hash, specStorage storage.ClientImpl) (t *Torrent, new bool) {
      cl.lock()
      defer cl.unlock()
      t, ok := cl.torrents[infoHash]
      if ok {
          return
      }
      new = true
      t = cl.newTorrent(infoHash, specStorage)
      cl.eachDhtServer(func(s DhtServer) {
          if cl.config.PeriodicallyAnnounceTorrentsToDht {
              go t.dhtAnnouncer(s)
          }
      })
      cl.torrents[infoHash] = t
      cl.clearAcceptLimits()
      t.updateWantPeersEvent()
      // Tickle Client.waitAccept, new torrent may want conns.
      cl.event.Broadcast()
      return
  }
  \<close>
  The result is the client after the call, the pointer returned and \<open>new\<close>.
\<close>

definition AddTorrentInfoHashWithStorage ::
  "'x registry_env \<Rightarrow> 'x Client \<Rightarrow> Hash \<Rightarrow> storage option \<Rightarrow> 'x Client \<times> torrent_ref \<times> bool" where
  "AddTorrentInfoHashWithStorage env cl ih specStorage =
     (case map_of (torrents cl) ih of
        Some t \<Rightarrow> (cl, t, False)
      | None \<Rightarrow>
          (let t = length (heap cl);
               cl1 = cl\<lparr>heap := heap cl @ [newTorrent env cl ih specStorage]\<rparr>;
               cl2 = emit (concat (map (\<lambda>s. if PeriodicallyAnnounceTorrentsToDht (config cl1)
                                              then [GoDhtAnnouncer t s] else [])
                                       (dhtServers cl1))) cl1;
               cl3 = cl2\<lparr>torrents := AList.update ih t (torrents cl2)\<rparr>;
               cl4 = clearAcceptLimits cl3;
               cl5 = cl4\<lparr>heap := (heap cl4)[t := updateWantPeersEvent env (heap cl4 ! t)]\<rparr>;
               cl6 = emit [EventBroadcast] cl5
           in (cl6, t, True)))"

text \<open>
  \<^verbatim>\<open>
  func (cl *Client) dropTorrent(infoHash metainfo.Hash) (err error) {
      t, ok := cl.torrents[infoHash]
      if !ok {
          err = fmt.Errorf("no such torrent")
          return
      }
      err = t.close()
      if err != nil {
          panic(err)
      }
      delete(cl.torrents, infoHash)
      return
  }
  \<close>
\<close>

definition dropTorrent ::
  "'x registry_env \<Rightarrow> 'x Client \<Rightarrow> Hash \<Rightarrow> panic + ('x Client \<times> error option)" where
  "dropTorrent env cl ih =
     (case map_of (torrents cl) ih of
        None \<Rightarrow> Inr (cl, Some (ErrorString ''no such torrent''))
      | Some t \<Rightarrow>
          (case Torrent_close env (heap cl ! t) of
             (Some err, t') \<Rightarrow> Inl (PanicError err)
           | (None, t') \<Rightarrow>
               Inr (cl\<lparr>heap := (heap cl)[t := t'],
                        torrents := AList.delete ih (torrents cl)\<rparr>, None)))"

text \<open>
  \<^verbatim>\<open>
  func (cl *Client) eachListener(f func(socket) bool) {
      for _, s := range cl.conns {
          if !f(s) { break }
      }
  }
  func (cl *Client) closeSockets() {
      cl.eachListener(func(l socket) bool {
          l.Close()
          return true
      })
      cl.conns = nil
  }
  \<close>
\<close>

definition closeSockets :: "'x Client \<Rightarrow> 'x Client" where
  "closeSockets cl = (emit (map SocketClose (conns cl)) cl)\<lparr>conns := []\<rparr>"

text \<open>
  Modelled from the spec: \<open>(*Client).clearPortMappings\<close>, which \<open>Close\<close> calls and
  another file defines. The specification says of \<open>close()\<close> that it "clears port
  mappings": every mapping is removed and the client holds none afterwards.
\<close>

definition clearPortMappings :: "'x Client \<Rightarrow> 'x Client" where
  "clearPortMappings cl =
     (emit (map PortMappingCleared (upnpMappings cl)) cl)\<lparr>upnpMappings := []\<rparr>"

text \<open>
  \<^verbatim>\<open>
  func (cl *Client) Close() {
      cl.lock()
      defer cl.unlock()
      cl.closed.Set()
      // cl.eachDhtServer(func(s DhtServer) { s.Close() }) // TODO
      cl.closeSockets()
      for _, t := range cl.torrents {
          t.close()
      }
      cl.clearPortMappings()
      for _, f := range cl.onClose {
          f()
      }
      cl.event.Broadcast()
  }
  \<close>
  The error of \<open>t.close()\<close> is dropped here. A callback is an opaque handle; running it
  is an effect.
\<close>

definition close_torrent_at :: "'x registry_env \<Rightarrow> torrent_ref \<Rightarrow> 'x Client \<Rightarrow> 'x Client" where
  "close_torrent_at env t cl =
     cl\<lparr>heap := (heap cl)[t := snd (Torrent_close env (heap cl ! t))]\<rparr>"

definition Close :: "'x registry_env \<Rightarrow> 'x Client \<Rightarrow> 'x Client" where
  "Close env cl =
     (let cl1 = cl\<lparr>closed := True\<rparr>;
          cl2 = closeSockets cl1;
          cl3 = fold (\<lambda>(ih, t). close_torrent_at env t) (torrents cl2) cl2;
          cl4 = clearPortMappings cl3;
          cl5 = emit (map OnCloseCall (onClose cl4)) cl4
      in emit [EventBroadcast] cl5)"

section \<open>Connections and the handshake pipeline\<close>

text \<open>
  A network connection is a handle with the text of its remote address
  (\<open>conn.RemoteAddr().String()\<close>). A \<open>connection\<close> has the fields that
  \<open>newConnection\<close> sets and those that the functions below read or write; the pointer
  to its torrent is \<open>conn_t\<close>, \<open>deadlineReader\<close> says that the reader has been wrapped
  in a \<open>deadlineReader\<close>, \<open>posted\<close> is the queue of messages handed to \<open>Post\<close>.
  Times are natural numbers.
\<close>

record NetConn =
  handle :: nat
  RemoteAddr_String :: string

datatype message = Message int64 int64 "byte list"

record connection =
  conn :: NetConn
  outgoing :: bool
  Choked :: bool
  PeerChoked :: bool
  PeerMaxRequests :: int64
  remoteAddr :: IpPort
  network :: string
  headerEncrypted :: bool
  cryptoMethod :: nat
  PeerID :: PeerID
  PeerExtensionBytes :: "byte list"
  completedHandshake :: "nat option"
  conn_t :: "torrent_ref option"
  deadlineReader :: bool
  metadataRequests :: "bool list"
  lastUsefulChunkReceived :: "nat option"
  posted :: "message list"

text \<open>
  \<^verbatim>\<open>
  func (cl *Client) newConnection(nc net.Conn, outgoing bool, remoteAddr IpPort, network string) (c *connection) {
      c = &connection{
          conn: nc, outgoing: outgoing, Choked: true, PeerChoked: true,
          PeerMaxRequests: 250, writeBuffer: new(bytes.Buffer),
          remoteAddr: remoteAddr, network: network,
      }
      c.writerCond.L = cl.locker()
      c.setRW(connStatsReadWriter{nc, c})
      c.r = &rateLimitedReader{l: cl.config.DownloadRateLimiter, r: c.r}
      return
  }
  \<close>
  Every other field has its zero value.
\<close>

definition newConnection :: "NetConn \<Rightarrow> bool \<Rightarrow> IpPort \<Rightarrow> string \<Rightarrow> connection" where
  "newConnection nc outg raddr netw =
     \<lparr>conn = nc, outgoing = outg, Choked = True, PeerChoked = True, PeerMaxRequests = 250,
      remoteAddr = raddr, network = netw, headerEncrypted = False, cryptoMethod = 0,
      PeerID = replicate 20 0, PeerExtensionBytes = replicate 8 0, completedHandshake = None,
      conn_t = None, deadlineReader = False, metadataRequests = [],
      lastUsefulChunkReceived = None, posted = []\<rparr>"

text \<open>
  What the handshake code outside \<open>client.go\<close> answers: \<open>handleEncryption\<close> (whether
  the header was encrypted, the crypto method, an error), \<open>mse.InitiateHandshake\<close> (the
  crypto method, an error) and \<open>pp.Handshake\<close> (the peer's hash, extension bits and
  id, \<open>ok\<close>, an error).
\<close>

record EncryptionResult =
  enc_headerEncrypted :: bool
  enc_cryptoMethod :: nat
  enc_err :: "error option"

record HandshakeResult =
  res_Hash :: Hash
  res_PeerExtensionBits :: "byte list"
  res_PeerID :: PeerID
  res_ok :: bool
  res_err :: "error option"

text \<open>
  The environment of the pipeline: the functions of other files and packages that it
  calls. Each answer may depend on the client (and so, through the log of effects, on
  what has happened), on the connection and on the arguments. \<open>dialFirst\<close> is the
  outcome of the race of dials, of which the pipeline sees the winning connection and
  its network, or none. \<open>mainReadLoop\<close> is taken at the point where it returns.
\<close>

record 'x conn_env =
  now :: nat
  SetDeadline :: "'x Client \<Rightarrow> NetConn \<Rightarrow> error option"
  dialFirst :: "'x Client \<Rightarrow> IpPort \<Rightarrow> (NetConn \<times> string) option"
  handleEncryption :: "'x Client \<Rightarrow> connection \<Rightarrow> Hash list \<Rightarrow> EncryptionResult"
  mse_InitiateHandshake :: "'x Client \<Rightarrow> connection \<Rightarrow> Hash \<Rightarrow> nat \<Rightarrow> nat \<times> error option"
  pp_Handshake :: "'x Client \<Rightarrow> connection \<Rightarrow> Hash option \<Rightarrow> HandshakeResult"
  setTorrent :: "connection \<Rightarrow> torrent_ref \<Rightarrow> 'x Client \<Rightarrow> connection \<times> 'x Client"
  connectionFlags :: "connection \<Rightarrow> string"
  connIsIpv6 :: "NetConn \<Rightarrow> bool"
  addConnection :: "torrent_ref \<Rightarrow> connection \<Rightarrow> 'x Client \<Rightarrow> error option \<times> 'x Client"
  dropConnection :: "torrent_ref \<Rightarrow> connection \<Rightarrow> 'x Client \<Rightarrow> 'x Client"
  sendInitialMessages :: "connection \<Rightarrow> torrent_ref \<Rightarrow> 'x Client \<Rightarrow> connection \<times> 'x Client"
  mainReadLoop :: "connection \<Rightarrow> 'x Client \<Rightarrow> error option \<times> connection \<times> 'x Client"

text \<open>The crypto methods of the \<open>mse\<close> package, a bit field.\<close>

definition CryptoMethodPlaintext :: nat where "CryptoMethodPlaintext = 1"
definition CryptoMethodRC4 :: nat where "CryptoMethodRC4 = 2"
definition AllSupportedCrypto :: nat where "AllSupportedCrypto = 3"

text \<open>
  \<^verbatim>\<open>
  func (cl *Client) connBTHandshake(c *connection, ih *metainfo.Hash) (ret metainfo.Hash, ok bool, err error) {
      res, ok, err := pp.Handshake(c.rw(), ih, cl.peerID, cl.extensionBytes)
      if err != nil || !ok {
          return
      }
      ret = res.Hash
      c.PeerExtensionBytes = res.PeerExtensionBits
      c.PeerID = res.PeerID
      c.completedHandshake = time.Now()
      return
  }
  \<close>
\<close>

definition connBTHandshake ::
  "'x conn_env \<Rightarrow> 'x Client \<Rightarrow> connection \<Rightarrow> Hash option
     \<Rightarrow> 'x Client \<times> connection \<times> Hash \<times> bool \<times> error option" where
  "connBTHandshake env cl c ih =
     (let cl1 = emit [CallBTHandshake] cl;
          res = pp_Handshake env cl1 c ih
      in if res_err res \<noteq> None \<or> \<not> res_ok res
         then (cl1, c, replicate 20 0, res_ok res, res_err res)
         else (cl1,
               c\<lparr>PeerExtensionBytes := res_PeerExtensionBits res, PeerID := res_PeerID res,
                  completedHandshake := Some (now env)\<rparr>,
               res_Hash res, res_ok res, res_err res))"

text \<open>
  \<^verbatim>\<open>
  func (cl *Client) initiateHandshakes(c *connection, t *Torrent) (ok bool, err error) {
      if c.headerEncrypted {
          var rw io.ReadWriter
          rw, c.cryptoMethod, err = mse.InitiateHandshake(
              struct{io.Reader; io.Writer}{c.r, c.w}, t.infoHash[:], nil,
              func() mse.CryptoMethod {
                  switch {
                  case cl.config.ForceEncryption: return mse.CryptoMethodRC4
                  case cl.config.DisableEncryption: return mse.CryptoMethodPlaintext
                  default: return mse.AllSupportedCrypto
                  }
              }(),
          )
          c.setRW(rw)
          if err != nil {
              return
          }
      }
      ih, ok, err := cl.connBTHandshake(c, &t.infoHash)
      if ih != t.infoHash {
          ok = false
      }
      return
  }
  \<close>
\<close>

definition initiateHandshakes ::
  "'x conn_env \<Rightarrow> 'x Client \<Rightarrow> connection \<Rightarrow> torrent_ref
     \<Rightarrow> 'x Client \<times> connection \<times> bool \<times> error option" where
  "initiateHandshakes env cl c t =
     (let t_infoHash = infoHash (heap cl ! t);
          provides = (if ForceEncryption (config cl) then CryptoMethodRC4
                      else if DisableEncryption (config cl) then CryptoMethodPlaintext
                      else AllSupportedCrypto);
          cl1 = (if headerEncrypted c then emit [CallMseInitiate provides] cl else cl);
          (method, err) = (if headerEncrypted c
                           then mse_InitiateHandshake env cl1 c t_infoHash provides
                           else (cryptoMethod c, None));
          c1 = c\<lparr>cryptoMethod := method\<rparr>
      in if err \<noteq> None then (cl1, c1, False, err)
         else (case connBTHandshake env cl1 c1 (Some t_infoHash) of
                 (cl2, c2, ih, ok, err2) \<Rightarrow>
                   (cl2, c2, (if ih \<noteq> t_infoHash then False else ok), err2)))"

text \<open>
  \<^verbatim>\<open>
  func (cl *Client) handshakesConnection(ctx context.Context, nc net.Conn, t *Torrent, encryptHeader bool, remoteAddr IpPort, network string) (c *connection, err error) {
      c = cl.newConnection(nc, true, remoteAddr, network)
      c.headerEncrypted = encryptHeader
      ctx, cancel := context.WithTimeout(ctx, cl.config.HandshakesTimeout)
      defer cancel()
      dl, ok := ctx.Deadline()
      if !ok {
          panic(ctx)
      }
      err = nc.SetDeadline(dl)
      if err != nil {
          panic(err)
      }
      ok, err = cl.initiateHandshakes(c, t)
      if !ok {
          c = nil
      }
      return
  }
  \<close>
  A context made by \<open>WithTimeout\<close> has a deadline, so the first panic cannot happen.
\<close>

definition handshakesConnection ::
  "'x conn_env \<Rightarrow> 'x Client \<Rightarrow> NetConn \<Rightarrow> torrent_ref \<Rightarrow> bool \<Rightarrow> IpPort \<Rightarrow> string
     \<Rightarrow> panic + ('x Client \<times> connection option \<times> error option)" where
  "handshakesConnection env cl nc t encryptHeader raddr netw =
     (let c = (newConnection nc True raddr netw)\<lparr>headerEncrypted := encryptHeader\<rparr>
      in case SetDeadline env cl nc of
           Some e \<Rightarrow> Inl (PanicError e)
         | None \<Rightarrow>
             (case initiateHandshakes env cl c t of
                (cl1, c1, ok, err) \<Rightarrow> Inr (cl1, (if \<not> ok then None else Some c1), err)))"

text \<open>
  \<^verbatim>\<open>
  func (cl *Client) establishOutgoingConnEx(t *Torrent, addr IpPort, ctx context.Context, obfuscatedHeader bool) (c *connection, err error) {
      dr := cl.dialFirst(ctx, addr.String())
      nc := dr.Conn
      if nc == nil {
          return
      }
      defer func() {
          if c == nil || err != nil {
              nc.Close()
          }
      }()
      return cl.handshakesConnection(ctx, nc, t, obfuscatedHeader, addr, dr.Network)
  }
  \<close>
\<close>

definition establishOutgoingConnEx ::
  "'x conn_env \<Rightarrow> 'x Client \<Rightarrow> torrent_ref \<Rightarrow> IpPort \<Rightarrow> bool
     \<Rightarrow> panic + ('x Client \<times> connection option \<times> error option)" where
  "establishOutgoingConnEx env cl t addr obfuscatedHeader =
     (let cl1 = emit [OutgoingAttempt obfuscatedHeader, CallDialFirst] cl
      in case dialFirst env cl1 addr of
           None \<Rightarrow> Inr (cl1, None, None)
         | Some (nc, netw) \<Rightarrow>
             (case handshakesConnection env cl1 nc t obfuscatedHeader addr netw of
                Inl p \<Rightarrow> Inl p
              | Inr (cl2, c, err) \<Rightarrow>
                  Inr ((if c = None \<or> err \<noteq> None then emit [NetConnClose (handle nc)] cl2
                        else cl2), c, err)))"

text \<open>
  \<^verbatim>\<open>
  func (cl *Client) establishOutgoingConn(t *Torrent, addr IpPort) (c *connection, err error) {
      torrent.Add("establish outgoing connection", 1)
      ctx, cancel := context.WithTimeout(context.Background(), func() time.Duration {
          cl.rLock()
          defer cl.rUnlock()
          return t.dialTimeout()
      }())
      defer cancel()
      obfuscatedHeaderFirst := !cl.config.DisableEncryption && !cl.config.PreferNoEncryption
      c, err = cl.establishOutgoingConnEx(t, addr, ctx, obfuscatedHeaderFirst)
      if err != nil {
          return
      }
      if c != nil {
          torrent.Add("initiated conn with preferred header obfuscation", 1)
          return
      }
      if cl.config.ForceEncryption {
          // We should have just tried with an obfuscated header. A plaintext
          // header can't result in an encrypted connection, so we're done.
          if !obfuscatedHeaderFirst {
              panic(cl.config.EncryptionPolicy)
          }
          return
      }
      // Try again with encryption if we didn't earlier, or without if we did.
      c, err = cl.establishOutgoingConnEx(t, addr, ctx, !obfuscatedHeaderFirst)
      if c != nil {
          torrent.Add("initiated conn with fallback header obfuscation", 1)
      }
      return
  }
  \<close>
\<close>

definition establishOutgoingConn ::
  "'x conn_env \<Rightarrow> 'x Client \<Rightarrow> torrent_ref \<Rightarrow> IpPort
     \<Rightarrow> panic + ('x Client \<times> connection option \<times> error option)" where
  "establishOutgoingConn env cl t addr =
     (let cl0 = emit [CounterAdd ''establish outgoing connection''] cl;
          obfuscatedHeaderFirst =
            (\<not> DisableEncryption (config cl0) \<and> \<not> PreferNoEncryption (config cl0))
      in case establishOutgoingConnEx env cl0 t addr obfuscatedHeaderFirst of
           Inl p \<Rightarrow> Inl p
         | Inr (cl1, c, err) \<Rightarrow>
             if err \<noteq> None then Inr (cl1, c, err)
             else if c \<noteq> None
               then Inr (emit [CounterAdd ''initiated conn with preferred header obfuscation''] cl1,
                         c, err)
             else if ForceEncryption (config cl1)
               then (if \<not> obfuscatedHeaderFirst then Inl (PanicValue ''EncryptionPolicy'')
                     else Inr (cl1, c, err))
             else (case establishOutgoingConnEx env cl1 t addr (\<not> obfuscatedHeaderFirst) of
                     Inl p \<Rightarrow> Inl p
                   | Inr (cl2, c2, err2) \<Rightarrow>
                       Inr ((if c2 \<noteq> None
                             then emit [CounterAdd ''initiated conn with fallback header obfuscation''] cl2
                             else cl2), c2, err2)))"

text \<open>
  \<^verbatim>\<open>
  func (cl *Client) forSkeys(f func([]byte) bool) {
      cl.lock()
      defer cl.unlock()
      for ih := range cl.torrents {
          if !f(ih[:]) { break }
      }
  }
  func (cl *Client) receiveHandshakes(c *connection) (t *Torrent, err error) {
      defer perf.ScopeTimerErr(&err)()
      var rw io.ReadWriter
      rw, c.headerEncrypted, c.cryptoMethod, err = handleEncryption(c.rw(), cl.forSkeys, cl.config.EncryptionPolicy)
      c.setRW(rw)
      if err == nil || err == mse.ErrNoSecretKeyMatch {
          if c.headerEncrypted {
              torrent.Add("handshakes received encrypted", 1)
          } else {
              torrent.Add("handshakes received unencrypted", 1)
          }
      } else {
          torrent.Add("handshakes received with error while handling encryption", 1)
      }
      if err != nil {
          if err == mse.ErrNoSecretKeyMatch {
              err = nil
          }
          return
      }
      if cl.config.ForceEncryption && !c.headerEncrypted {
          err = errors.New("connection not encrypted")
          return
      }
      ih, ok, err := cl.connBTHandshake(c, nil)
      if err != nil {
          err = fmt.Errorf("error during bt handshake: %s", err)
          return
      }
      if !ok {
          return
      }
      cl.lock()
      t = cl.torrents[ih]
      cl.unlock()
      return
  }
  \<close>
  \<open>handleEncryption\<close> is given the secret keys that \<open>forSkeys\<close> offers, the info
  hashes of the torrents map, and reads the encryption policy from the client's
  configuration.
\<close>

definition receiveHandshakes ::
  "'x conn_env \<Rightarrow> 'x Client \<Rightarrow> connection
     \<Rightarrow> 'x Client \<times> connection \<times> torrent_ref option \<times> error option" where
  "receiveHandshakes env cl c =
     (let enc = handleEncryption env cl c (map fst (torrents cl));
          c1 = c\<lparr>headerEncrypted := enc_headerEncrypted enc, cryptoMethod := enc_cryptoMethod enc\<rparr>;
          err = enc_err enc;
          cl1 = emit [CounterAdd
                  (if err = None \<or> err = Some ErrNoSecretKeyMatch
                   then (if headerEncrypted c1 then ''handshakes received encrypted''
                         else ''handshakes received unencrypted'')
                   else ''handshakes received with error while handling encryption'')] cl
      in if err \<noteq> None
         then (cl1, c1, None, (if err = Some ErrNoSecretKeyMatch then None else err))
         else if ForceEncryption (config cl1) \<and> \<not> headerEncrypted c1
         then (cl1, c1, None, Some (ErrorString ''connection not encrypted''))
         else (case connBTHandshake env cl1 c1 None of
                 (cl2, c2, ih, ok, err2) \<Rightarrow>
                   (case err2 of
                      Some e \<Rightarrow> (cl2, c2, None, Some (ErrorWrap ''error during bt handshake'' e))
                    | None \<Rightarrow>
                        if \<not> ok then (cl2, c2, None, None)
                        else (cl2, c2, map_of (torrents cl2) ih, None))))"

text \<open>
  \<^verbatim>\<open>
  func (cl *Client) runHandshookConn(c *connection, t *Torrent) error {
      c.setTorrent(t)
      if c.PeerID == cl.peerID {
          if c.outgoing {
              connsToSelf.Add(1)
              addr := c.conn.RemoteAddr().String()
              cl.dopplegangerAddrs[addr] = struct{}{}
          } else {
              // Because the remote address is not necessarily the same as its
              // client's torrent listen address, we won't record the remote address
              // as a doppleganger. Instead, the initiator can record *us* as the
              // doppleganger.
          }
          cl.logger.Levelf(log.Debug, "local and remote peer ids are the same")
          return nil
      }
      c.conn.SetWriteDeadline(time.Time{})
      c.r = deadlineReader{c.conn, c.r}
      completedHandshakeConnectionFlags.Add(c.connectionFlags(), 1)
      if connIsIpv6(c.conn) {
          torrent.Add("completed handshake over ipv6", 1)
      }
      if err := t.addConnection(c); err != nil {
          return fmt.Errorf("adding connection: %w", err)
      }
      defer t.dropConnection(c)
      go c.writer(time.Minute)
      cl.sendInitialMessages(c, t)
      if err := c.mainReadLoop(); err != nil {
          return fmt.Errorf("main read loop: %w", err)
      }
      return nil
  }
  \<close>
  The initial messages go through the write queue of the connection, which is code of
  another file; \<open>sendInitialMessages\<close> is therefore a function of the environment
  here, as are \<open>setTorrent\<close>, \<open>addConnection\<close>, \<open>dropConnection\<close> and the read loop.
\<close>

definition runHandshookConn ::
  "'x conn_env \<Rightarrow> 'x Client \<Rightarrow> connection \<Rightarrow> torrent_ref
     \<Rightarrow> 'x Client \<times> connection \<times> error option" where
  "runHandshookConn env cl c t =
     (case setTorrent env c t cl of
        (c1, cl1) \<Rightarrow>
          if PeerID c1 = peerID cl1 then
            ((if outgoing c1
              then (emit [CounterAdd ''connsToSelf''] cl1)
                     \<lparr>dopplegangerAddrs :=
                        insert (RemoteAddr_String (conn c1)) (dopplegangerAddrs cl1)\<rparr>
              else cl1), c1, None)
          else
            (let c2 = c1\<lparr>deadlineReader := True\<rparr>;
                 cl2 = emit (CounterAdd (connectionFlags env c2) #
                             (if connIsIpv6 env (conn c2)
                              then [CounterAdd ''completed handshake over ipv6''] else [])) cl1
             in case addConnection env t c2 (emit [CallAddConnection (handle (conn c2)) t] cl2) of
                  (Some err, cl3) \<Rightarrow> (cl3, c2, Some (ErrorWrap ''adding connection'' err))
                | (None, cl3) \<Rightarrow>
                    (case sendInitialMessages env c2 t (emit [GoWriter (handle (conn c2))] cl3) of
                       (c4, cl4) \<Rightarrow>
                         (case mainReadLoop env c4 (emit [CallMainReadLoop (handle (conn c4))] cl4) of
                            (err, c5, cl5) \<Rightarrow>
                              (dropConnection env t c5
                                 (emit [CallDropConnection (handle (conn c5)) t] cl5),
                               c5,
                               (case err of
                                  Some e \<Rightarrow> Some (ErrorWrap ''main read loop'' e)
                                | None \<Rightarrow> None))))))"

text \<open>
  \<^verbatim>\<open>
  func (cl *Client) runReceivedConn(c *connection) {
      err := c.conn.SetDeadline(time.Now().Add(cl.config.HandshakesTimeout))
      if err != nil {
          panic(err)
      }
      t, err := cl.receiveHandshakes(c)
      if err != nil {
          cl.logger.LazyLog(...)
          torrent.Add("error receiving handshake", 1)
          cl.lock()
          cl.onBadAccept(c.remoteAddr)
          cl.unlock()
          return
      }
      if t == nil {
          torrent.Add("received handshake for unloaded torrent", 1)
          cl.logger.LazyLog(...)
          cl.lock()
          cl.onBadAccept(c.remoteAddr)
          cl.unlock()
          return
      }
      torrent.Add("received handshake for loaded torrent", 1)
      cl.lock()
      defer cl.unlock()
      if err := cl.runHandshookConn(c, t); err != nil && cl.config.Debug {
          cl.logger.Levelf(log.Error, "Received connection error %s", err)
      }
  }
  \<close>
  Messages to the logger are not modelled.
\<close>

definition runReceivedConn ::
  "'x conn_env \<Rightarrow> (IP \<Rightarrow> string) \<Rightarrow> 'x Client \<Rightarrow> connection
     \<Rightarrow> panic + ('x Client \<times> connection)" where
  "runReceivedConn env str6 cl c =
     (case SetDeadline env cl (conn c) of
        Some e \<Rightarrow> Inl (PanicError e)
      | None \<Rightarrow>
          (case receiveHandshakes env cl c of
             (cl1, c1, t, err) \<Rightarrow>
               if err \<noteq> None
               then Inr (onBadAccept str6 (emit [CounterAdd ''error receiving handshake''] cl1)
                           (remoteAddr c1), c1)
               else (case t of
                       None \<Rightarrow>
                         Inr (onBadAccept str6
                                (emit [CounterAdd ''received handshake for unloaded torrent''] cl1)
                                (remoteAddr c1), c1)
                     | Some t' \<Rightarrow>
                         (case runHandshookConn env
                                 (emit [CounterAdd ''received handshake for loaded torrent''] cl1)
                                 c1 t' of
                            (cl2, c2, err2) \<Rightarrow> Inr (cl2, c2)))))"

text \<open>
  The attempts that a log of effects records: the \<open>obfuscatedHeader\<close> flags of the
  calls of \<open>establishOutgoingConnEx\<close>, in order.
\<close>

fun attempts :: "effect list \<Rightarrow> bool list" where
  "attempts [] = []"
| "attempts (OutgoingAttempt b # es) = b # attempts es"
| "attempts (e # es) = attempts es"

section \<open>Metadata extension messages\<close>

text \<open>
  The message types of the metadata extension (BEP 9), constants of the package
  \<open>peer_protocol\<close>.
\<close>

definition RequestMetadataExtensionMsgType :: int64 where
  "RequestMetadataExtensionMsgType = 0"

definition DataMetadataExtensionMsgType :: int64 where
  "DataMetadataExtensionMsgType = 1"

definition RejectMetadataExtensionMsgType :: int64 where
  "RejectMetadataExtensionMsgType = 2"

text \<open>
  A Go slice is a window on an array: it has a length and a capacity. It is given here
  by its length \<open>slice_len\<close> and by \<open>backing\<close>, the elements of the array from the
  first element of the slice up to its capacity, so that \<open>cap(s)\<close> is the length of
  \<open>backing\<close> and the elements of the slice are the first \<open>slice_len\<close> of them. The
  slice expression \<open>s[lo:hi]\<close> is bounded by the capacity, not by the length: it
  panics unless \<open>0 \<le> lo \<le> hi \<le> cap(s)\<close>, and its elements are those of the array
  from \<open>lo\<close> up to \<open>hi\<close>.
\<close>

record 'a slice =
  slice_len :: nat
  backing :: "'a list"

text \<open>
  The environment of \<open>gotMetadataExtensionMsg\<close>: \<open>bencode.Unmarshal\<close> into a
  \<open>map[string]int\<close> (its error and the map it has filled), the function
  \<open>metadataPieceSize\<close>, and the methods of \<open>Torrent\<close> for the metadata:
  \<open>saveMetadataPiece\<close>, \<open>maybeCompleteMetadata\<close>, \<open>haveMetadataPiece\<close>,
  \<open>metadataPieceSize\<close>, the field \<open>metadataBytes\<close> and
  \<open>newMetadataExtensionMessage\<close>.
\<close>

record 'x metadata_env =
  md_now :: nat
  bencode_Unmarshal :: "byte list \<Rightarrow> error option \<times> (string \<rightharpoonup> int64)"
  metadataPieceSize :: "int64 \<Rightarrow> int64 \<Rightarrow> int64"
  saveMetadataPiece :: "torrent_ref \<Rightarrow> int64 \<Rightarrow> byte list \<Rightarrow> 'x Client \<Rightarrow> 'x Client"
  maybeCompleteMetadata :: "torrent_ref \<Rightarrow> 'x Client \<Rightarrow> error option \<times> 'x Client"
  haveMetadataPiece :: "'x Torrent \<Rightarrow> int64 \<Rightarrow> bool"
  metadataPieceSize_t :: "'x Torrent \<Rightarrow> int64 \<Rightarrow> int64"
  metadataBytes :: "'x Torrent \<Rightarrow> byte slice"
  newMetadataExtensionMessage ::
    "'x Torrent \<Rightarrow> connection \<Rightarrow> int64 \<Rightarrow> int64 \<Rightarrow> byte list option \<Rightarrow> message"

text \<open>Reading a \<open>map[string]int\<close>: a missing key reads as 0.\<close>

definition map_get :: "(string \<rightharpoonup> int64) \<Rightarrow> string \<Rightarrow> int64" where
  "map_get d k = (case d k of None \<Rightarrow> 0 | Some v \<Rightarrow> v)"

text \<open>
  Modelled from the spec: \<open>(*connection).requestedMetadataPiece\<close>, a method of
  another file. The specification keeps "a pending flag" per piece and peer
  (\<open>metadata-requested\<close>, the slice \<open>c.metadataRequests\<close>): the piece is requested
  when its flag exists and is set.
\<close>

definition requestedMetadataPiece :: "connection \<Rightarrow> int64 \<Rightarrow> bool" where
  "requestedMetadataPiece c index =
     (0 \<le> sint index \<and> nat (sint index) < length (metadataRequests c) \<and>
      metadataRequests c ! nat (sint index))"

text \<open>\<open>c.Post(msg)\<close> queues a message.\<close>

definition Post :: "connection \<Rightarrow> message \<Rightarrow> connection" where
  "Post c msg = c\<lparr>posted := posted c @ [msg]\<rparr>"

text \<open>The slice expression \<open>s[lo:hi]\<close>.\<close>

definition go_slice :: "'a slice \<Rightarrow> int64 \<Rightarrow> int64 \<Rightarrow> panic + 'a list" where
  "go_slice s lo hi =
     (if 0 \<le> sint lo \<and> sint lo \<le> sint hi \<and> sint hi \<le> int (length (backing s))
      then Inr (take (nat (sint hi) - nat (sint lo)) (drop (nat (sint lo)) (backing s)))
      else Inl (PanicValue ''slice bounds out of range''))"

text \<open>
  \<^verbatim>\<open>
  func (cl *Client) gotMetadataExtensionMsg(payload []byte, t *Torrent, c *connection) error {
      var d map[string]int
      err := bencode.Unmarshal(payload, &d)
      if _, ok := err.(bencode.ErrUnusedTrailingBytes); ok {
      } else if err != nil {
          return fmt.Errorf("error unmarshalling bencode: %s", err)
      }
      msgType, ok := d["msg_type"]
      if !ok {
          return errors.New("missing msg_type field")
      }
      piece := d["piece"]
      switch msgType {
      case pp.DataMetadataExtensionMsgType:
          c.allStats(add(1, func(cs *ConnStats) *Count { return &cs.MetadataChunksRead }))
          if !c.requestedMetadataPiece(piece) {
              return fmt.Errorf("got unexpected piece %d", piece)
          }
          c.metadataRequests[piece] = false
          begin := len(payload) - metadataPieceSize(d["total_size"], piece)
          if begin < 0 || begin >= len(payload) {
              return fmt.Errorf("data has bad offset in payload: %d", begin)
          }
          t.saveMetadataPiece(piece, payload[begin:])
          c.lastUsefulChunkReceived = time.Now()
          return t.maybeCompleteMetadata()
      case pp.RequestMetadataExtensionMsgType:
          if !t.haveMetadataPiece(piece) {
              c.Post(t.newMetadataExtensionMessage(c, pp.RejectMetadataExtensionMsgType, d["piece"], nil))
              return nil
          }
          start := (1 << 14) * piece
          c.Post(t.newMetadataExtensionMessage(c, pp.DataMetadataExtensionMsgType, piece, t.metadataBytes[start:start+t.metadataPieceSize(piece)]))
          return nil
      case pp.RejectMetadataExtensionMsgType:
          return nil
      default:
          return errors.New("unknown msg_type value")
      }
  }
  \<close>
  The statistics that \<open>allStats\<close> bumps are one counter of the log of effects.
\<close>

definition gotMetadataExtensionMsg ::
  "'x metadata_env \<Rightarrow> 'x Client \<Rightarrow> byte list \<Rightarrow> torrent_ref \<Rightarrow> connection
     \<Rightarrow> panic + ('x Client \<times> connection \<times> error option)" where
  "gotMetadataExtensionMsg env cl payload t c =
     (case bencode_Unmarshal env payload of
        (uerr, d) \<Rightarrow>
          (case (case uerr of
                   None \<Rightarrow> None
                 | Some ErrUnusedTrailingBytes \<Rightarrow> None
                 | Some e \<Rightarrow> Some e) of
             Some e \<Rightarrow> Inr (cl, c, Some (ErrorWrap ''error unmarshalling bencode'' e))
           | None \<Rightarrow>
               (case d ''msg_type'' of
                  None \<Rightarrow> Inr (cl, c, Some (ErrorString ''missing msg_type field''))
                | Some msgType \<Rightarrow>
                    (let piece = map_get d ''piece'' in
                     if msgType = DataMetadataExtensionMsgType then
                       (let cl1 = emit [CounterAdd ''MetadataChunksRead''] cl in
                        if \<not> requestedMetadataPiece c piece
                        then Inr (cl1, c, Some (ErrorString ''got unexpected piece''))
                        else
                          (let c1 = c\<lparr>metadataRequests :=
                                        (metadataRequests c)[nat (sint piece) := False]\<rparr>;
                               begin = (of_nat (length payload) :: int64)
                                         - metadataPieceSize env (map_get d ''total_size'') piece
                           in if sint begin < 0 \<or> int (length payload) \<le> sint begin
                              then Inr (cl1, c1,
                                        Some (ErrorString ''data has bad offset in payload''))
                              else
                                (let cl2 = saveMetadataPiece env t piece
                                             (drop (nat (sint begin)) payload) cl1;
                                     c2 = c1\<lparr>lastUsefulChunkReceived := Some (md_now env)\<rparr>
                                 in case maybeCompleteMetadata env t cl2 of
                                      (err, cl3) \<Rightarrow> Inr (cl3, c2, err))))
                     else if msgType = RequestMetadataExtensionMsgType then
                       (if \<not> haveMetadataPiece env (heap cl ! t) piece
                        then Inr (cl,
                                  Post c (newMetadataExtensionMessage env (heap cl ! t) c
                                            RejectMetadataExtensionMsgType (map_get d ''piece'') None),
                                  None)
                        else
                          (let start = (2 ^ 14) * piece in
                           case go_slice (metadataBytes env (heap cl ! t)) start
                                  (start + metadataPieceSize_t env (heap cl ! t) piece) of
                             Inl p \<Rightarrow> Inl p
                           | Inr bs \<Rightarrow>
                               Inr (cl,
                                    Post c (newMetadataExtensionMessage env (heap cl ! t) c
                                              DataMetadataExtensionMsgType piece (Some bs)),
                                    None)))
                     else if msgType = RejectMetadataExtensionMsgType then Inr (cl, c, None)
                     else Inr (cl, c, Some (ErrorString ''unknown msg_type value''))))))"

section \<open>Concrete states\<close>

text \<open>
  A configuration with every switch off, and the client that the struct literal of
  \<open>NewClient\<close> builds from it, before any listener is bound: empty maps, no torrents.
  \<open>example_str6\<close> stands for the text form of addresses that are not IPv4.
\<close>

definition example_config :: ClientConfig where
  "example_config =
     \<lparr>DisableEncryption = False, ForceEncryption = False, PreferNoEncryption = False,
      DisableIPv4Peers = False, DisableIPv4 = False, DisableIPv6 = False,
      DisableAcceptRateLimiting = False, PeriodicallyAnnounceTorrentsToDht = False,
      EstablishedConnsPerTorrent = 50, Debug = False\<rparr>"

definition example_client :: "unit Client" where
  "example_client =
     \<lparr>closed = False, config = example_config,
      peerID = replicate 20 1, defaultStorage = 0, onClose = [], conns = [], dhtServers = [],
      ipBlockList = None, extensionBytes = replicate 8 0, dopplegangerAddrs = {},
      badPeerIPs = {}, torrents = [], acceptLimiter = None, numHalfOpen = 0,
      upnpMappings = [], heap = [], effects = []\<rparr>"

definition example_str6 :: "IP \<Rightarrow> string" where
  "example_str6 ip = ''::''"

text \<open>
  An environment for the registry: a torrent is closed without error, and neither
  closing it nor \<open>updateWantPeersEvent\<close> changes the fields modelled here. In
  \<open>failing_close_env\<close> closing a torrent returns an error.
\<close>

definition example_registry_env :: "unit registry_env" where
  "example_registry_env =
     \<lparr>zeroOther = (), defaultChunkSize = 16384, storage_NewClient = (\<lambda>s. s),
      updateWantPeersEvent = (\<lambda>t. t), Torrent_close = (\<lambda>t. (None, t))\<rparr>"

definition failing_close_env :: "unit registry_env" where
  "failing_close_env =
     example_registry_env\<lparr>Torrent_close := (\<lambda>t. (Some (ExternalError 1), t))\<rparr>"

definition example_hash :: Hash where
  "example_hash = replicate 20 7"

text \<open>
  A client with one torrent registered under \<open>example_hash\<close>, and an environment of
  the handshake pipeline in which everything succeeds: the dial yields a TCP
  connection, the peer answers the handshakes with the hash \<open>example_hash\<close> and an id
  of its own. In \<open>no_skey_env\<close> the receiver's encryption phase ends with
  \<open>ErrNoSecretKeyMatch\<close>; in \<open>plaintext_only_env\<close> the peer accepts only plaintext,
  so that the obfuscated handshake fails; in \<open>no_dial_env\<close> no dial succeeds.
\<close>

definition example_client_one :: "unit Client" where
  "example_client_one =
     example_client
       \<lparr>torrents := [(example_hash, 0)],
        heap := [newTorrent example_registry_env example_client example_hash None]\<rparr>"

definition example_netconn :: NetConn where
  "example_netconn = \<lparr>handle = 1, RemoteAddr_String = ''127.0.0.1:6881''\<rparr>"

definition example_addr :: IpPort where
  "example_addr = \<lparr>IP = [127, 0, 0, 1], Port = 6881\<rparr>"

definition example_conn_env :: "unit conn_env" where
  "example_conn_env =
     \<lparr>now = 0,
      SetDeadline = (\<lambda>cl nc. None),
      dialFirst = (\<lambda>cl addr. Some (example_netconn, ''tcp'')),
      handleEncryption = (\<lambda>cl c skeys.
         \<lparr>enc_headerEncrypted = False, enc_cryptoMethod = 0, enc_err = None\<rparr>),
      mse_InitiateHandshake = (\<lambda>cl c skey provides. (2, None)),
      pp_Handshake = (\<lambda>cl c ih.
         \<lparr>res_Hash = example_hash, res_PeerExtensionBits = replicate 8 0,
          res_PeerID = replicate 20 2, res_ok = True, res_err = None\<rparr>),
      setTorrent = (\<lambda>c t cl. (c\<lparr>conn_t := Some t\<rparr>, cl)),
      connectionFlags = (\<lambda>c. ''''),
      connIsIpv6 = (\<lambda>nc. False),
      addConnection = (\<lambda>t c cl. (None, cl)),
      dropConnection = (\<lambda>t c cl. cl),
      sendInitialMessages = (\<lambda>c t cl. (c, cl)),
      mainReadLoop = (\<lambda>c cl. (None, c, cl))\<rparr>"

definition no_skey_env :: "unit conn_env" where
  "no_skey_env =
     example_conn_env
       \<lparr>handleEncryption := (\<lambda>cl c skeys.
          \<lparr>enc_headerEncrypted = True, enc_cryptoMethod = 0,
           enc_err = Some ErrNoSecretKeyMatch\<rparr>)\<rparr>"

definition plaintext_only_env :: "unit conn_env" where
  "plaintext_only_env =
     example_conn_env
       \<lparr>mse_InitiateHandshake := (\<lambda>cl c skey provides. (0, Some (ExternalError 1)))\<rparr>"

definition no_dial_env :: "unit conn_env" where
  "no_dial_env = example_conn_env\<lparr>dialFirst := (\<lambda>cl addr. None)\<rparr>"

definition example_connection :: connection where
  "example_connection = newConnection example_netconn False example_addr ''tcp''"

text \<open>
  An environment of the metadata extension in which the payload decodes to a
  \<open>Reject\<close> message for piece 0.
\<close>

definition reject_piece0_env :: "unit metadata_env" where
  "reject_piece0_env =
     \<lparr>md_now = 0,
      bencode_Unmarshal = (\<lambda>payload. (None, [''msg_type'' \<mapsto> 2, ''piece'' \<mapsto> 0])),
      metadataPieceSize = (\<lambda>total piece. 16384),
      saveMetadataPiece = (\<lambda>t piece bs cl. cl),
      maybeCompleteMetadata = (\<lambda>t cl. (None, cl)),
      haveMetadataPiece = (\<lambda>t piece. False),
      metadataPieceSize_t = (\<lambda>t piece. 16384),
      metadataBytes = (\<lambda>t. \<lparr>slice_len = 0, backing = []\<rparr>),
      newMetadataExtensionMessage = (\<lambda>t c msgType piece bs. Message msgType piece [])\<rparr>"

definition reject_payload :: "byte list" where
  "reject_payload = map (of_nat \<circ> of_char) ''d8:msg_typei2e5:piecei0ee''"

chapter \<open>Properties\<close>

section \<open>Signed 64-bit arithmetic\<close>

lemma sint_add_no_overflow:
  fixes a b :: int64
  assumes "- (2^63) \<le> sint a + sint b" "sint a + sint b < 2^63"
  shows "sint (a + b) = sint a + sint b"
  using assms
  by (simp add: sint_word_ariths signed_take_bit_int_eq_self)

lemma sint_word_of_int_range:
  assumes "- (2^63) \<le> x" "x < 2^63"
  shows "sint (word_of_int x :: int64) = x"
  using assms by (simp add: sint_sbintrunc' signed_take_bit_int_eq_self)

lemma sint_int64_bounds: "- (2^63) \<le> sint (w :: int64) \<and> sint w < 2^63"
  using sint_ge [of w] sint_lt [of w] by simp

lemma sdiv_nonneg: "0 \<le> a \<Longrightarrow> 0 < b \<Longrightarrow> (a::int) sdiv b = a div b"
  by (simp add: signed_divide_int_def sgn_if)

lemma go_div_nonneg:
  assumes "0 \<le> sint a" "0 < sint b"
  shows "\<exists>r. go_div a b = Inr r \<and> sint r = sint a div sint b"
proof -
  have b0: "b \<noteq> 0" using assms(2) by auto
  have q0: "0 \<le> sint a div sint b" using assms by (simp add: pos_imp_zdiv_nonneg_iff)
  have "sint a div sint b \<le> sint a div 1" using assms by (intro zdiv_mono2) auto
  then have q1: "sint a div sint b < 2^63" using sint_int64_bounds [of a] by simp
  have "sint (word_of_int (sint a div sint b) :: int64) = sint a div sint b"
    using q0 q1 by (intro sint_word_of_int_range) auto
  then show ?thesis using assms b0 by (simp add: go_div_def sdiv_nonneg)
qed

lemma go_div_zero: "go_div a 0 = Inl DivideByZero"
  by (simp add: go_div_def)

section \<open>Dial timeout\<close>

lemma reducedDialTimeout_value:
  assumes h: "1 \<le> sint h" and p: "0 \<le> sint p" and ov: "sint p + sint h < 2^63"
    and mx: "0 \<le> sint mx"
  shows "\<exists>r. reducedDialTimeout mn mx h p = Inr r \<and>
             sint r = max (sint mn) (sint mx div ((sint p + sint h) div sint h))"
proof -
  have s: "sint (p + h) = sint p + sint h"
    using h p ov by (intro sint_add_no_overflow) auto
  obtain n where n: "go_div (p + h) h = Inr n" "sint n = (sint p + sint h) div sint h"
    using go_div_nonneg [of "p + h" h] h p s by auto
  have "1 \<le> (sint p + sint h) div sint h"
    using h p pos_imp_zdiv_pos_iff [of "sint h" "sint p + sint h"] by linarith
  then have npos: "0 < sint n" using n(2) by simp
  obtain r where r: "go_div mx n = Inr r" "sint r = sint mx div sint n"
    using go_div_nonneg [of mx n] mx npos by auto
  show ?thesis using n r by (simp add: reducedDialTimeout_def max_def)
qed

lemma reducedDialTimeout_returns:
  assumes h: "1 \<le> sint h" and p: "0 \<le> sint p" and ov: "sint p + sint h < 2^63"
  shows "\<exists>r. reducedDialTimeout mn mx h p = Inr r"
proof -
  have s: "sint (p + h) = sint p + sint h"
    using h p ov by (intro sint_add_no_overflow) auto
  obtain n where n: "go_div (p + h) h = Inr n" "sint n = (sint p + sint h) div sint h"
    using go_div_nonneg [of "p + h" h] h p s by auto
  have "1 \<le> (sint p + sint h) div sint h"
    using h p pos_imp_zdiv_pos_iff [of "sint h" "sint p + sint h"] by linarith
  then have "n \<noteq> 0" using n(2) by auto
  then show ?thesis using n(1) by (simp add: reducedDialTimeout_def go_div_def)
qed

lemma reducedDialTimeout_ge_min:
  "reducedDialTimeout mn mx h p = Inr r \<Longrightarrow> sint mn \<le> sint r"
  by (auto simp: reducedDialTimeout_def split: sum.splits if_splits)

lemma reducedDialTimeout_zero_limit:
  "reducedDialTimeout mn mx 0 p = Inl DivideByZero"
  by (simp add: reducedDialTimeout_def go_div_zero)

text \<open>
  Claim C1, as stated, fails: the code divides by the integer quotient
  \<open>(pendingPeers + halfOpenLimit) / halfOpenLimit\<close>, which rounds down, not up. With
  one pending peer and a limit of two the code returns the whole nominal timeout, where
  the ceiling of the specification halves it. With no pending peer a nominal timeout
  below the minimum is raised to the minimum. And when the sum of the two counts leaves
  the 64-bit range the quotient can be 0, and nothing is returned.
\<close>

theorem reducedDialTimeout_ceiling_counterexample:
  "reducedDialTimeout 1 10 2 1 = Inr 10 \<and> spec_dial_timeout 1 10 2 1 = 5 \<and>
   reducedDialTimeout 5 3 1 0 = Inr 5 \<and>
   reducedDialTimeout 1 10 (2 ^ 63 - 1) 1 = Inr 1 \<and>
   spec_dial_timeout 1 10 (2 ^ 63 - 1) 1 = 5 \<and>
   reducedDialTimeout 1 10 (2 ^ 63 - 1) (2 ^ 63 - 1) = Inl DivideByZero"
  by (simp add: reducedDialTimeout_def go_div_def signed_divide_int_def
      spec_dial_timeout_def ceiling_div_def)

text \<open>
  Claim C1, amended: for \<open>minDialTimeout\<close>, \<open>max\<close>, \<open>halfOpenLimit\<close> at least 1 and
  \<open>pendingPeers\<close> at least 0, with \<open>pendingPeers + halfOpenLimit\<close> inside the 64-bit
  range, \<open>reducedDialTimeout\<close> returns \<open>max\<close> divided by the quotient
  \<open>(pendingPeers + halfOpenLimit) / halfOpenLimit\<close> rounded down, a result below
  \<open>minDialTimeout\<close> being replaced by \<open>minDialTimeout\<close>; with \<open>pendingPeers = 0\<close>
  and \<open>minDialTimeout \<le> max\<close> it returns exactly \<open>max\<close>.
\<close>

theorem reducedDialTimeout_floor:
  assumes "1 \<le> sint mn" "1 \<le> sint mx" "1 \<le> sint h" "0 \<le> sint p" "sint p + sint h < 2^63"
  shows "(\<exists>r. reducedDialTimeout mn mx h p = Inr r \<and>
             sint r = max (sint mn) (sint mx div ((sint p + sint h) div sint h))) \<and>
         (p = 0 \<and> sint mn \<le> sint mx \<longrightarrow> reducedDialTimeout mn mx h p = Inr mx)"
proof
  show "\<exists>r. reducedDialTimeout mn mx h p = Inr r \<and>
             sint r = max (sint mn) (sint mx div ((sint p + sint h) div sint h))"
    using assms by (intro reducedDialTimeout_value) auto
next
  show "p = 0 \<and> sint mn \<le> sint mx \<longrightarrow> reducedDialTimeout mn mx h p = Inr mx"
  proof
    assume a: "p = 0 \<and> sint mn \<le> sint mx"
    obtain r where r: "reducedDialTimeout mn mx h p = Inr r"
       "sint r = max (sint mn) (sint mx div ((sint p + sint h) div sint h))"
      using reducedDialTimeout_value [of h p mx mn] assms by auto
    have "sint r = sint mx" using r(2) a assms(3) by simp
    then have "r = mx" by (rule signed_word_eqI)
    then show "reducedDialTimeout mn mx h p = Inr mx" using r(1) by simp
  qed
qed

theorem reducedDialTimeout_floor_witness:
  "(\<exists>r. reducedDialTimeout 3 20 5 7 = Inr r \<and> sint r = 10) \<and>
   reducedDialTimeout 3 20 5 0 = Inr 20"
  using reducedDialTimeout_floor [of 3 20 5 7] reducedDialTimeout_floor [of 3 20 5 0]
  by (simp add: max_def)

text \<open>
  Claim C10, as stated, fails: \<open>halfOpenLimit \<ge> 1\<close> alone does not make the division
  well-defined. With \<open>halfOpenLimit = 1\<close> and \<open>pendingPeers = -1\<close> the inner quotient
  is 0 and the outer division panics; so it does when the sum of two large
  non-negative arguments wraps around.
\<close>

theorem reducedDialTimeout_total_counterexample:
  "1 \<le> sint (1 :: int64) \<and> reducedDialTimeout 1 10 1 (- 1) = Inl DivideByZero \<and>
   reducedDialTimeout 1 10 (2 ^ 63 - 1) (2 ^ 63 - 1) = Inl DivideByZero"
  by (simp add: reducedDialTimeout_def go_div_def signed_divide_int_def)

text \<open>
  Claim C10, amended: with \<open>halfOpenLimit = 0\<close> \<open>reducedDialTimeout\<close> panics on a
  division by zero, whatever the other arguments. With \<open>halfOpenLimit \<ge> 1\<close>,
  \<open>pendingPeers \<ge> 0\<close> and \<open>pendingPeers + halfOpenLimit\<close> inside the 64-bit range
  it returns, and whenever it returns the result is at least \<open>minDialTimeout\<close>.
\<close>

theorem reducedDialTimeout_total:
  "reducedDialTimeout mn mx 0 p = Inl DivideByZero \<and>
   (1 \<le> sint h \<and> 0 \<le> sint p \<and> sint p + sint h < 2^63 \<longrightarrow>
      (\<exists>r. reducedDialTimeout mn mx h p = Inr r \<and> sint mn \<le> sint r)) \<and>
   (\<forall>r. reducedDialTimeout mn mx h p = Inr r \<longrightarrow> sint mn \<le> sint r)"
proof (intro conjI impI allI)
  show "reducedDialTimeout mn mx 0 p = Inl DivideByZero"
    by (rule reducedDialTimeout_zero_limit)
next
  assume a: "1 \<le> sint h \<and> 0 \<le> sint p \<and> sint p + sint h < 2^63"
  then obtain r where r: "reducedDialTimeout mn mx h p = Inr r"
    using reducedDialTimeout_returns [of h p mn mx] by auto
  then show "\<exists>r. reducedDialTimeout mn mx h p = Inr r \<and> sint mn \<le> sint r"
    using reducedDialTimeout_ge_min [OF r] by simp
next
  fix r assume "reducedDialTimeout mn mx h p = Inr r"
  then show "sint mn \<le> sint r" by (rule reducedDialTimeout_ge_min)
qed

theorem reducedDialTimeout_total_witness:
  "reducedDialTimeout 3 20 0 7 = Inl DivideByZero \<and>
   (\<exists>r. reducedDialTimeout 3 20 5 7 = Inr r \<and> sint (3 :: int64) \<le> sint r)"
  using reducedDialTimeout_total [of 3 20 7 5] by simp

section \<open>Dotted-decimal rendering is injective\<close>

lemma digit_inj: "n < 10 \<Longrightarrow> m < 10 \<Longrightarrow> digit n = digit m \<Longrightarrow> n = m"
  unfolding digit_def
  by (subst (asm) nth_eq_iff_index_eq) auto

lemma digit_not_dot: "n < 10 \<Longrightarrow> digit n \<noteq> CHR ''.''"
proof -
  assume "n < 10"
  then have "digit n \<in> set ''0123456789''" unfolding digit_def by (intro nth_mem) simp
  then show ?thesis by auto
qed

lemma unat_byte_less: "unat (v :: byte) < 256"
  using unsigned_less [of v, where ?'a = nat] by simp

lemma ubtoa_no_dot: "CHR ''.'' \<notin> set (ubtoa v)"
proof -
  have b: "unat v < 256" by (rule unat_byte_less)
  have d1: "unat v mod 10 < 10" and d2: "unat v div 10 mod 10 < 10" by simp_all
  have d3: "unat v div 100 < 10" using b by simp
  show ?thesis
  proof (cases "unat v < 10")
    case True
    then show ?thesis using digit_not_dot [of "unat v"] by (simp add: ubtoa_def Let_def)
  next
    case F10: False
    show ?thesis
    proof (cases "unat v < 100")
      case True
      then have "unat v div 10 < 10" by simp
      then show ?thesis
        using F10 True digit_not_dot [of "unat v div 10"] digit_not_dot [OF d1]
        by (simp add: ubtoa_def Let_def)
    next
      case False
      then show ?thesis
        using F10 digit_not_dot [OF d1] digit_not_dot [OF d2] digit_not_dot [OF d3]
        by (simp add: ubtoa_def Let_def)
    qed
  qed
qed

lemma ubtoa_length:
  "length (ubtoa v) = (if unat v < 10 then 1 else if unat v < 100 then 2 else 3)"
  by (simp add: ubtoa_def Let_def)

lemma div_mod_10_eq:
  fixes n m :: nat
  assumes "n div 10 = m div 10" "n mod 10 = m mod 10"
  shows "n = m"
proof -
  have "n = n div 10 * 10 + n mod 10" by simp
  also have "\<dots> = m div 10 * 10 + m mod 10" by (simp only: assms)
  also have "\<dots> = m" by simp
  finally show ?thesis .
qed

lemma ubtoa_inj: "ubtoa a = ubtoa b \<Longrightarrow> a = b"
proof -
  assume eq: "ubtoa a = ubtoa b"
  have la: "unat a < 256" and lb: "unat b < 256" by (rule unat_byte_less)+
  have len: "length (ubtoa a) = length (ubtoa b)" using eq by simp
  have "unat a = unat b"
  proof (cases "unat a < 10")
    case True
    then have b10: "unat b < 10" using len by (simp add: ubtoa_length split: if_splits)
    then have "digit (unat a) = digit (unat b)" using True eq by (simp add: ubtoa_def Let_def)
    then show ?thesis using True b10 by (rule digit_inj [rotated 2])
  next
    case a10: False
    show ?thesis
    proof (cases "unat a < 100")
      case True
      then have b: "\<not> unat b < 10" "unat b < 100"
        using len a10 by (simp_all add: ubtoa_length split: if_splits)
      then have e: "digit (unat a div 10) = digit (unat b div 10)"
          "digit (unat a mod 10) = digit (unat b mod 10)"
        using True a10 eq by (simp_all add: ubtoa_def Let_def)
      have "unat a div 10 < 10" "unat b div 10 < 10" using True b by simp_all
      then have q: "unat a div 10 = unat b div 10" using e(1) digit_inj by blast
      have r: "unat a mod 10 = unat b mod 10" using e(2) digit_inj [of "unat a mod 10" "unat b mod 10"] by simp
      show ?thesis by (rule div_mod_10_eq [OF q r])
    next
      case False
      then have b: "\<not> unat b < 10" "\<not> unat b < 100"
        using len a10 by (simp_all add: ubtoa_length split: if_splits)
      then have e: "digit (unat a div 100) = digit (unat b div 100)"
          "digit ((unat a div 10) mod 10) = digit ((unat b div 10) mod 10)"
          "digit (unat a mod 10) = digit (unat b mod 10)"
        using False a10 eq by (simp_all add: ubtoa_def Let_def)
      have "unat a div 100 < 10" "unat b div 100 < 10" using la lb by simp_all
      then have q: "unat a div 100 = unat b div 100" using e(1) digit_inj by blast
      have r: "(unat a div 10) mod 10 = (unat b div 10) mod 10"
        using e(2) digit_inj [of "(unat a div 10) mod 10" "(unat b div 10) mod 10"] by simp
      have s: "unat a mod 10 = unat b mod 10"
        using e(3) digit_inj [of "unat a mod 10" "unat b mod 10"] by simp
      have q': "unat a div 10 div 10 = unat b div 10 div 10"
        using q by (simp add: div_mult2_eq [symmetric])
      have "unat a div 10 = unat b div 10" by (rule div_mod_10_eq [OF q' r])
      then show ?thesis using s by (rule div_mod_10_eq)
    qed
  qed
  then show ?thesis by (simp add: word_unat_eq_iff)
qed

lemma split_at_dot:
  "CHR ''.'' \<notin> set xs \<Longrightarrow> CHR ''.'' \<notin> set xs' \<Longrightarrow>
   xs @ CHR ''.'' # ys = xs' @ CHR ''.'' # ys' \<Longrightarrow> xs = xs' \<and> ys = ys'"
proof (induction xs arbitrary: xs')
  case Nil
  then show ?case by (cases xs') auto
next
  case (Cons x xs)
  then show ?case by (cases xs') auto
qed

lemma dotted_inj3:
  assumes "dotted [a0, a1, a2, a3] = dotted [b0, b1, b2, b3]"
  shows "a0 = b0 \<and> a1 = b1 \<and> a2 = b2 \<and> a3 = b3"
proof -
  from assms have e0:
    "ubtoa a0 @ CHR ''.'' # (ubtoa a1 @ CHR ''.'' # (ubtoa a2 @ CHR ''.'' # ubtoa a3)) =
     ubtoa b0 @ CHR ''.'' # (ubtoa b1 @ CHR ''.'' # (ubtoa b2 @ CHR ''.'' # ubtoa b3))"
    by (simp add: dotted_def)
  from split_at_dot [OF ubtoa_no_dot ubtoa_no_dot e0]
  have r0: "ubtoa a0 = ubtoa b0" and e1: "ubtoa a1 @ CHR ''.'' # (ubtoa a2 @ CHR ''.'' # ubtoa a3) =
     ubtoa b1 @ CHR ''.'' # (ubtoa b2 @ CHR ''.'' # ubtoa b3)" by auto
  from split_at_dot [OF ubtoa_no_dot ubtoa_no_dot e1]
  have r1: "ubtoa a1 = ubtoa b1" and e2: "ubtoa a2 @ CHR ''.'' # ubtoa a3 = ubtoa b2 @ CHR ''.'' # ubtoa b3"
    by auto
  from split_at_dot [OF ubtoa_no_dot ubtoa_no_dot e2]
  have r2: "ubtoa a2 = ubtoa b2" and r3: "ubtoa a3 = ubtoa b3" by auto
  show ?thesis using r0 r1 r2 r3 by (auto dest: ubtoa_inj)
qed

section \<open>Admission of accepted connections\<close>

lemma CIDRMask_24_32: "CIDRMask 24 32 = [0xff, 0xff, 0xff, 0]"
  by (simp add: CIDRMask_def upt_rec)

lemma byte_and_ff: "(x :: byte) AND 0xff = x"
proof -
  have "(0xff :: byte) = - 1" by simp
  then show ?thesis by (simp only: and.right_neutral)
qed

lemma To4_length: "To4 ip = Some a \<Longrightarrow> length a = 4"
  by (auto simp: To4_def split: if_splits)

lemma list4: "length a = 4 \<Longrightarrow> a = [a ! 0, a ! 1, a ! 2, a ! 3]"
  by (cases a; simp; cases "tl a"; simp; cases "tl (tl a)"; simp; cases "tl (tl (tl a))"; simp)

lemma Mask_24:
  assumes "length a = 4"
  shows "Mask a (CIDRMask 24 32) = [a ! 0, a ! 1, a ! 2, 0]"
proof -
  obtain a0 a1 a2 a3 where a: "a = [a0, a1, a2, a3]" using list4 [OF assms] by metis
  show ?thesis by (simp add: a Mask_def CIDRMask_24_32 byte_and_ff)
qed

lemma maskIp_v4:
  "To4 ip = Some a \<Longrightarrow> maskIpForAcceptLimiting ip = [a ! 0, a ! 1, a ! 2, 0]"
  by (simp add: maskIpForAcceptLimiting_def Mask_24 To4_length)

lemma IP_String_4: "length p = 4 \<Longrightarrow> IP_String str6 p = dotted p"
  by (simp add: IP_String_def To4_def)

lemma limiter_key_distinct:
  assumes "To4 ip = Some a" "To4 ip' = Some b" "take 3 a \<noteq> take 3 b"
  shows "IP_String str6 (maskIpForAcceptLimiting ip) \<noteq> IP_String str6 (maskIpForAcceptLimiting ip')"
proof
  assume eq: "IP_String str6 (maskIpForAcceptLimiting ip) = IP_String str6 (maskIpForAcceptLimiting ip')"
  have la: "length a = 4" and lb: "length b = 4" using assms To4_length by auto
  have "dotted [a ! 0, a ! 1, a ! 2, 0] = dotted [b ! 0, b ! 1, b ! 2, 0]"
    using eq assms by (simp add: maskIp_v4 IP_String_4)
  then have "a ! 0 = b ! 0 \<and> a ! 1 = b ! 1 \<and> a ! 2 = b ! 2" using dotted_inj3 by blast
  moreover have "take 3 a = [a ! 0, a ! 1, a ! 2]" using list4 [OF la] by (metis take_Suc_Cons take0 numeral_3_eq_3)
  moreover have "take 3 b = [b ! 0, b ! 1, b ! 2]" using list4 [OF lb] by (metis take_Suc_Cons take0 numeral_3_eq_3)
  ultimately show False using assms(3) by simp
qed


lemma rateLimitAccept_onBadAccept_other:
  assumes "IP_String str6 (maskIpForAcceptLimiting ip) \<noteq> IP_String str6 (maskIpForAcceptLimiting ip')"
  shows "rateLimitAccept str6 (onBadAccept str6 cl \<lparr>IP = ip, Port = pt\<rparr>) ip' =
         rateLimitAccept str6 cl ip'"
  using assms
  by (simp add: rateLimitAccept_def onBadAccept_def limiter_get_def Let_def split: option.splits)

lemma rateLimitAccept_cleared: "\<not> rateLimitAccept str6 (clearAcceptLimits cl) ip"
  by (simp add: rateLimitAccept_def clearAcceptLimits_def limiter_get_def)

text \<open>
  Claim C5, as stated, fails: \<open>rateLimitAccept\<close> answers \<open>false\<close> at once when the
  configuration sets \<open>DisableAcceptRateLimiting\<close>, whatever the limiter holds. Here
  the limiter counts 5 for 198.51.100.0 and an accept from 198.51.100.7 is not rejected.
\<close>

theorem rejectAccepted_limiter_counterexample:
  "0 < sint (limiter_get (Some [''198.51.100.0'' \<mapsto> 5])
        (IP_String example_str6 (maskIpForAcceptLimiting [198, 51, 100, 7]))) \<and>
   \<not> rejectAccepted example_str6
     (example_client
        \<lparr>config := example_config\<lparr>DisableAcceptRateLimiting := True\<rparr>,
         acceptLimiter := Some [''198.51.100.0'' \<mapsto> 5]\<rparr>)
     [198, 51, 100, 7] 6881"
  by (simp add: rejectAccepted_def rateLimitAccept_def badPeerIPPort_def dopplegangerAddr_def
      ipBlockRange_def limiter_get_def maskIpForAcceptLimiting_def To4_def Mask_def
      CIDRMask_def upt_rec IP_String_def dotted_def ubtoa_def digit_def
      example_client_def example_config_def)

text \<open>
  Claim C5, amended: unless the configuration sets \<open>DisableAcceptRateLimiting\<close>, an
  incoming connection whose remote IP, after masking (/24 for IPv4, the full address
  otherwise), has an accept-limiter count greater than zero is rejected by
  \<open>rejectAccepted\<close>; once the limiter is cleared, \<open>rateLimitAccept\<close> rejects nothing;
  and a bad accept counted for one IPv4 address leaves the answer of
  \<open>rateLimitAccept\<close> for every IPv4 address in a different /24 as it was, so that
  after a clearing such an address is not rate-limited.
\<close>

theorem rejectAccepted_rate_limited:
  "(\<not> DisableAcceptRateLimiting (config cl) \<and>
    0 < sint (limiter_get (acceptLimiter cl) (IP_String str6 (maskIpForAcceptLimiting rip)))
      \<longrightarrow> rejectAccepted str6 cl rip rport) \<and>
   \<not> rateLimitAccept str6 (clearAcceptLimits cl) rip \<and>
   (To4 ip = Some a \<and> To4 ip' = Some b \<and> take 3 a \<noteq> take 3 b \<longrightarrow>
      rateLimitAccept str6 (onBadAccept str6 cl \<lparr>IP = ip, Port = pt\<rparr>) ip' =
        rateLimitAccept str6 cl ip' \<and>
      \<not> rateLimitAccept str6 (onBadAccept str6 (clearAcceptLimits cl) \<lparr>IP = ip, Port = pt\<rparr>) ip')"
proof (intro conjI impI)
  assume "\<not> DisableAcceptRateLimiting (config cl) \<and>
    0 < sint (limiter_get (acceptLimiter cl) (IP_String str6 (maskIpForAcceptLimiting rip)))"
  then show "rejectAccepted str6 cl rip rport"
    by (simp add: rejectAccepted_def rateLimitAccept_def)
next
  show "\<not> rateLimitAccept str6 (clearAcceptLimits cl) rip" by (rule rateLimitAccept_cleared)
next
  assume a: "To4 ip = Some a \<and> To4 ip' = Some b \<and> take 3 a \<noteq> take 3 b"
  then have k: "IP_String str6 (maskIpForAcceptLimiting ip) \<noteq>
                 IP_String str6 (maskIpForAcceptLimiting ip')"
    using limiter_key_distinct by blast
  show "rateLimitAccept str6 (onBadAccept str6 cl \<lparr>IP = ip, Port = pt\<rparr>) ip' =
        rateLimitAccept str6 cl ip'"
    by (rule rateLimitAccept_onBadAccept_other [OF k])
  show "\<not> rateLimitAccept str6 (onBadAccept str6 (clearAcceptLimits cl) \<lparr>IP = ip, Port = pt\<rparr>) ip'"
    using rateLimitAccept_onBadAccept_other [OF k, of "clearAcceptLimits cl" pt]
      rateLimitAccept_cleared [of str6 cl ip'] by simp
qed

theorem rejectAccepted_rate_limited_witness:
  "rejectAccepted example_str6
     (onBadAccept example_str6 example_client \<lparr>IP = [198, 51, 100, 7], Port = 50000\<rparr>)
     [198, 51, 100, 9] 6881 \<and>
   \<not> rateLimitAccept example_str6
     (onBadAccept example_str6 (clearAcceptLimits example_client)
        \<lparr>IP = [198, 51, 100, 7], Port = 50000\<rparr>)
     [198, 51, 101, 7]"
  using rejectAccepted_rate_limited [of
      "onBadAccept example_str6 example_client \<lparr>IP = [198, 51, 100, 7], Port = 50000\<rparr>"
      example_str6 "[198, 51, 100, 9]" 6881
      "[198, 51, 100, 7]" "[198, 51, 100, 7]" "[198, 51, 101, 7]" "[198, 51, 101, 7]" 50000]
  by (simp add: example_client_def example_config_def onBadAccept_def limiter_get_def
      maskIpForAcceptLimiting_def To4_def Mask_def CIDRMask_def upt_rec IP_String_def
      dotted_def ubtoa_def digit_def clearAcceptLimits_def)

section \<open>The registry of torrents\<close>

lemma AddTorrent_present:
  "map_of (torrents cl) ih = Some t \<Longrightarrow>
   AddTorrentInfoHashWithStorage env cl ih st = (cl, t, False)"
  by (simp add: AddTorrentInfoHashWithStorage_def)

lemma AddTorrent_absent:
  assumes "map_of (torrents cl) ih = None"
  shows "AddTorrentInfoHashWithStorage env cl ih st =
    (cl\<lparr>torrents := AList.update ih (length (heap cl)) (torrents cl),
        acceptLimiter := None,
        heap := heap cl @ [updateWantPeersEvent env (newTorrent env cl ih st)],
        effects := effects cl @
          concat (map (\<lambda>s. if PeriodicallyAnnounceTorrentsToDht (config cl)
                            then [GoDhtAnnouncer (length (heap cl)) s] else []) (dhtServers cl))
          @ [EventBroadcast]\<rparr>,
     length (heap cl), True)"
  using assms
  by (simp add: AddTorrentInfoHashWithStorage_def Let_def emit_def clearAcceptLimits_def)

text \<open>
  Claim C7: the first call of \<open>AddTorrentInfoHashWithStorage\<close> for an info hash that
  is not registered returns a new torrent (a fresh pointer, the torrent that
  \<open>newTorrent\<close> builds) with \<open>new = true\<close>, registers it under the hash, clears the
  accept limiter and ends with a broadcast on the shared event; every later call with
  the same hash, whatever the storage argument, returns the same pointer with
  \<open>new = false\<close> and leaves the client as it is.
\<close>

theorem AddTorrent_once:
  assumes "map_of (torrents cl) ih = None"
  shows "\<exists>cl' t. AddTorrentInfoHashWithStorage env cl ih st = (cl', t, True) \<and>
           t = length (heap cl) \<and>
           heap cl' = heap cl @ [updateWantPeersEvent env (newTorrent env cl ih st)] \<and>
           map_of (torrents cl') = (map_of (torrents cl))(ih \<mapsto> t) \<and>
           acceptLimiter cl' = None \<and>
           last (effects cl') = EventBroadcast \<and>
           (\<forall>st'. AddTorrentInfoHashWithStorage env cl' ih st' = (cl', t, False))"
proof -
  let ?cl' = "fst (AddTorrentInfoHashWithStorage env cl ih st)"
  let ?t = "length (heap cl)"
  have r: "AddTorrentInfoHashWithStorage env cl ih st = (?cl', ?t, True)"
    by (simp add: AddTorrent_absent [OF assms])
  have h: "heap ?cl' = heap cl @ [updateWantPeersEvent env (newTorrent env cl ih st)]"
    by (simp add: AddTorrent_absent [OF assms])
  have m: "map_of (torrents ?cl') = (map_of (torrents cl))(ih \<mapsto> ?t)"
    by (simp add: AddTorrent_absent [OF assms] update_conv')
  have a: "acceptLimiter ?cl' = None"
    by (simp add: AddTorrent_absent [OF assms])
  have e: "last (effects ?cl') = EventBroadcast"
    by (simp add: AddTorrent_absent [OF assms])
  have "map_of (torrents ?cl') ih = Some ?t" using m by simp
  then have s: "\<forall>st'. AddTorrentInfoHashWithStorage env ?cl' ih st' = (?cl', ?t, False)"
    by (simp add: AddTorrent_present)
  show ?thesis using r h m a e s by blast
qed

theorem AddTorrent_once_witness:
  "\<exists>cl' t. AddTorrentInfoHashWithStorage example_registry_env example_client example_hash None
             = (cl', t, True) \<and> t = 0 \<and> map_of (torrents cl') example_hash = Some 0 \<and>
           AddTorrentInfoHashWithStorage example_registry_env cl' example_hash (Some 5)
             = (cl', t, False)"
proof -
  have "map_of (torrents example_client) example_hash = None"
    by (simp add: example_client_def)
  from AddTorrent_once [OF this, of example_registry_env None]
  obtain cl' t where
    "AddTorrentInfoHashWithStorage example_registry_env example_client example_hash None
       = (cl', t, True)"
    "t = length (heap example_client)"
    "map_of (torrents cl') = (map_of (torrents example_client))(example_hash \<mapsto> t)"
    "\<forall>st'. AddTorrentInfoHashWithStorage example_registry_env cl' example_hash st' = (cl', t, False)"
    by blast
  then show ?thesis by (auto simp: example_client_def)
qed

text \<open>
  Claim C8, as stated, fails in its second half: \<open>dropTorrent\<close> does not return for
  every info hash that is present. It closes the torrent first, and when \<open>t.close()\<close>
  returns an error it panics with that error, before the hash is deleted from the map.
  Here \<open>example_hash\<close> is registered and closing its torrent fails.
\<close>

theorem dropTorrent_close_error_counterexample:
  "map_of (torrents example_client_one) example_hash = Some 0 \<and>
   Torrent_close failing_close_env (heap example_client_one ! 0)
     = (Some (ExternalError 1), heap example_client_one ! 0) \<and>
   dropTorrent failing_close_env example_client_one example_hash
     = Inl (PanicError (ExternalError 1))"
  by (simp add: dropTorrent_def failing_close_env_def example_registry_env_def
      example_client_one_def example_client_def)

text \<open>
  Claim C8, amended: for an info hash that is not in the torrents map \<open>dropTorrent\<close>
  returns the error "no such torrent" and leaves the client unchanged; for one that is,
  and whose torrent closes without error, it closes the torrent, removes the hash from
  the map (every other entry stays) and returns no error; for one that is and whose
  \<open>t.close()\<close> returns an error, \<open>dropTorrent\<close> panics with that error and returns
  nothing.
\<close>

theorem dropTorrent_absent_present:
  "(map_of (torrents cl) ih = None \<longrightarrow>
      dropTorrent env cl ih = Inr (cl, Some (ErrorString ''no such torrent''))) \<and>
   (map_of (torrents cl) ih = Some t \<and> Torrent_close env (heap cl ! t) = (None, t') \<longrightarrow>
      (\<exists>cl'. dropTorrent env cl ih = Inr (cl', None) \<and>
             heap cl' = (heap cl)[t := t'] \<and>
             map_of (torrents cl') = (map_of (torrents cl))(ih := None))) \<and>
   (map_of (torrents cl) ih = Some t \<and> Torrent_close env (heap cl ! t) = (Some e, t') \<longrightarrow>
      dropTorrent env cl ih = Inl (PanicError e))"
  by (simp add: dropTorrent_def delete_conv')

theorem dropTorrent_absent_present_witness:
  "dropTorrent example_registry_env example_client example_hash
     = Inr (example_client, Some (ErrorString ''no such torrent'')) \<and>
   (\<exists>cl'. dropTorrent example_registry_env example_client_one example_hash = Inr (cl', None) \<and>
          map_of (torrents cl') = ((map_of [(example_hash, 0)])(example_hash := None))) \<and>
   dropTorrent failing_close_env example_client_one example_hash
     = Inl (PanicError (ExternalError 1))"
  using dropTorrent_absent_present
      [where cl = example_client and ih = example_hash and env = example_registry_env]
    dropTorrent_absent_present
      [where cl = example_client_one and ih = example_hash and env = example_registry_env
        and t = 0
        and t' = "newTorrent example_registry_env example_client example_hash None"]
    dropTorrent_absent_present
      [where cl = example_client_one and ih = example_hash and env = failing_close_env
        and t = 0 and e = "ExternalError 1"
        and t' = "newTorrent example_registry_env example_client example_hash None"]
  by (auto simp: example_client_one_def example_client_def example_registry_env_def
      failing_close_env_def)


lemma fold_close_fields:
  "\<exists>hp. fold (\<lambda>(ih, t). close_torrent_at env t) ts cl = cl\<lparr>heap := hp\<rparr>"
proof (induction ts arbitrary: cl)
  case Nil
  have "cl = cl\<lparr>heap := heap cl\<rparr>" by simp
  then show ?case by (metis fold_simps(1))
next
  case (Cons a ts)
  obtain ih t where a: "a = (ih, t)" by (cases a)
  obtain hp where "fold (\<lambda>(ih, t). close_torrent_at env t) ts (close_torrent_at env t cl)
      = (close_torrent_at env t cl)\<lparr>heap := hp\<rparr>"
    using Cons.IH by blast
  then have "fold (\<lambda>(ih, t). close_torrent_at env t) (a # ts) cl = cl\<lparr>heap := hp\<rparr>"
    by (simp add: a close_torrent_at_def)
  then show ?case by blast
qed

lemma Close_eq:
  "\<exists>hp. Close env cl =
   cl\<lparr>closed := True, conns := [], upnpMappings := [], heap := hp,
      effects := effects cl @ map SocketClose (conns cl) @ map PortMappingCleared (upnpMappings cl)
                 @ map OnCloseCall (onClose cl) @ [EventBroadcast]\<rparr>"
proof -
  obtain hp where hp: "fold (\<lambda>(ih, t). close_torrent_at env t) (torrents cl)
        (closeSockets (cl\<lparr>closed := True\<rparr>)) = (closeSockets (cl\<lparr>closed := True\<rparr>))\<lparr>heap := hp\<rparr>"
    using fold_close_fields by blast
  have "Close env cl =
   cl\<lparr>closed := True, conns := [], upnpMappings := [], heap := hp,
      effects := effects cl @ map SocketClose (conns cl) @ map PortMappingCleared (upnpMappings cl)
                 @ map OnCloseCall (onClose cl) @ [EventBroadcast]\<rparr>"
    unfolding Close_def Let_def
    apply (subst hp [unfolded closeSockets_def emit_def, simplified] 
         | simp add: closeSockets_def emit_def clearPortMappings_def)+
    done
  then show ?thesis by blast
qed

text \<open>
  Claim C9: \<open>Close\<close> is idempotent on the client's state. After the first call the
  closed latch is set, no listener and no port mapping is left and the registry of
  torrents is the one before the call; a second call leaves the latch set and changes
  no field of the client: the listeners, the registry and the port mappings are those
  after the first call. (What the second call does again is outside these fields: it
  closes the registered torrents once more, runs the callbacks and broadcasts.)
\<close>

theorem Close_idempotent:
  "closed (Close env cl) \<and> conns (Close env cl) = [] \<and> upnpMappings (Close env cl) = [] \<and>
   torrents (Close env cl) = torrents cl \<and>
   closed (Close env (Close env cl)) \<and>
   conns (Close env (Close env cl)) = conns (Close env cl) \<and>
   torrents (Close env (Close env cl)) = torrents (Close env cl) \<and>
   upnpMappings (Close env (Close env cl)) = upnpMappings (Close env cl) \<and>
   (Close env (Close env cl))\<lparr>heap := heap (Close env cl), effects := effects (Close env cl)\<rparr>
     = Close env cl"
proof -
  obtain hp1 where c1: "Close env cl =
   cl\<lparr>closed := True, conns := [], upnpMappings := [], heap := hp1,
      effects := effects cl @ map SocketClose (conns cl) @ map PortMappingCleared (upnpMappings cl)
                 @ map OnCloseCall (onClose cl) @ [EventBroadcast]\<rparr>" (is "_ = ?c1")
    using Close_eq by blast
  obtain hp2 where c2: "Close env ?c1 =
   ?c1\<lparr>closed := True, conns := [], upnpMappings := [], heap := hp2,
      effects := effects ?c1 @ map SocketClose (conns ?c1) @ map PortMappingCleared (upnpMappings ?c1)
                 @ map OnCloseCall (onClose ?c1) @ [EventBroadcast]\<rparr>"
    using Close_eq by blast
  show ?thesis unfolding c1 c2 by simp
qed

section \<open>The handshake pipeline\<close>

text \<open>
  Claim C4: when the peer id of the connection, as \<open>runHandshookConn\<close> compares it
  (after \<open>setTorrent\<close>), equals the client's own, \<open>runHandshookConn\<close> returns \<open>nil\<close>
  at once: \<open>addConnection\<close> is not called (the log of effects gains no such call) and
  no torrent changes, so the connection is not added to the torrent's set of
  connections; and if the connection is outgoing, the text of its remote address is
  in \<open>dopplegangerAddrs\<close> on return.
\<close>

theorem runHandshookConn_self:
  assumes "setTorrent env c t cl = (c1, cl1)" and "PeerID c1 = peerID cl1"
  shows "runHandshookConn env cl c t =
           ((if outgoing c1
             then cl1\<lparr>dopplegangerAddrs :=
                         insert (RemoteAddr_String (conn c1)) (dopplegangerAddrs cl1),
                      effects := effects cl1 @ [CounterAdd ''connsToSelf'']\<rparr>
             else cl1), c1, None) \<and>
         heap (fst (runHandshookConn env cl c t)) = heap cl1 \<and>
         CallAddConnection (handle (conn c1)) t \<in> set (effects (fst (runHandshookConn env cl c t)))
           = (CallAddConnection (handle (conn c1)) t \<in> set (effects cl1)) \<and>
         (outgoing c1 \<longrightarrow>
            RemoteAddr_String (conn c1) \<in> dopplegangerAddrs (fst (runHandshookConn env cl c t)))"
  using assms by (simp add: runHandshookConn_def emit_def)

theorem runHandshookConn_self_witness:
  "runHandshookConn example_conn_env (example_client_one\<lparr>peerID := replicate 20 2\<rparr>)
     (example_connection\<lparr>PeerID := replicate 20 2, outgoing := True\<rparr>) 0 =
   (example_client_one
      \<lparr>peerID := replicate 20 2, dopplegangerAddrs := {''127.0.0.1:6881''},
       effects := [CounterAdd ''connsToSelf'']\<rparr>,
    example_connection\<lparr>PeerID := replicate 20 2, outgoing := True, conn_t := Some 0\<rparr>, None)"
  using runHandshookConn_self [where env = example_conn_env
      and cl = "example_client_one\<lparr>peerID := replicate 20 2\<rparr>"
      and c = "example_connection\<lparr>PeerID := replicate 20 2, outgoing := True\<rparr>" and t = 0
      and ?c1.0 = "example_connection\<lparr>PeerID := replicate 20 2, outgoing := True, conn_t := Some 0\<rparr>"
      and ?cl1.0 = "example_client_one\<lparr>peerID := replicate 20 2\<rparr>"]
  by (simp add: example_conn_env_def example_client_one_def example_client_def
      example_connection_def newConnection_def example_netconn_def)

text \<open>
  Claim C3, as stated, fails in its second half. When \<open>handleEncryption\<close> ends with
  \<open>ErrNoSecretKeyMatch\<close>, \<open>receiveHandshakes\<close> sets the error to \<open>nil\<close> and returns
  on the spot, with no torrent: the BitTorrent handshake is not attempted. Here the
  torrent \<open>example_hash\<close> is loaded and the peer would send that hash, yet no torrent
  is selected, \<open>pp.Handshake\<close> is never called, and \<open>runReceivedConn\<close> counts a bad
  accept for the peer's /24.
\<close>

theorem receiveHandshakes_no_skey_match_counterexample:
  "map_of (torrents example_client_one) example_hash = Some 0 \<and>
   enc_err (handleEncryption no_skey_env example_client_one example_connection
              (map fst (torrents example_client_one))) = Some ErrNoSecretKeyMatch \<and>
   res_ok (pp_Handshake no_skey_env example_client_one example_connection None) \<and>
   res_Hash (pp_Handshake no_skey_env example_client_one example_connection None) = example_hash \<and>
   snd (snd (receiveHandshakes no_skey_env example_client_one example_connection)) = (None, None) \<and>
   CallBTHandshake \<notin> set (effects (fst (receiveHandshakes no_skey_env example_client_one
                                           example_connection))) \<and>
   limiter_get (acceptLimiter (fst (projr (runReceivedConn no_skey_env example_str6
                   example_client_one example_connection)))) ''127.0.0.0'' = 1"
  by (simp add: receiveHandshakes_def runReceivedConn_def no_skey_env_def example_conn_env_def
      example_client_one_def example_client_def example_connection_def newConnection_def
      emit_def onBadAccept_def limiter_get_def example_addr_def
      maskIpForAcceptLimiting_def To4_def Mask_def CIDRMask_def upt_rec IP_String_def
      dotted_def ubtoa_def digit_def)

text \<open>
  Claim C3, amended: when the receiver-side encryption phase ends with
  \<open>ErrNoSecretKeyMatch\<close>, \<open>receiveHandshakes\<close> reports no error and returns no
  torrent, without attempting the BitTorrent handshake (its only effect is one
  counter); \<open>runReceivedConn\<close> then treats the connection as a handshake for an
  unloaded torrent: it counts a bad accept for the remote address and returns.
\<close>

theorem receiveHandshakes_no_skey_match:
  assumes "enc_err (handleEncryption env cl c (map fst (torrents cl))) = Some ErrNoSecretKeyMatch"
  shows "receiveHandshakes env cl c =
           (cl\<lparr>effects := effects cl @
                  [CounterAdd (if enc_headerEncrypted (handleEncryption env cl c (map fst (torrents cl)))
                               then ''handshakes received encrypted''
                               else ''handshakes received unencrypted'')]\<rparr>,
            c\<lparr>headerEncrypted := enc_headerEncrypted (handleEncryption env cl c (map fst (torrents cl))),
               cryptoMethod := enc_cryptoMethod (handleEncryption env cl c (map fst (torrents cl)))\<rparr>,
            None, None) \<and>
         (SetDeadline env cl (conn c) = None \<longrightarrow>
            runReceivedConn env str6 cl c =
              Inr (onBadAccept str6
                     (emit [CounterAdd ''received handshake for unloaded torrent'']
                        (fst (receiveHandshakes env cl c)))
                     (remoteAddr c),
                   fst (snd (receiveHandshakes env cl c))))"
  using assms by (simp add: receiveHandshakes_def runReceivedConn_def Let_def emit_def)

theorem receiveHandshakes_no_skey_match_witness:
  "snd (snd (receiveHandshakes no_skey_env example_client_one example_connection)) = (None, None) \<and>
   effects (fst (receiveHandshakes no_skey_env example_client_one example_connection))
     = [CounterAdd ''handshakes received encrypted''] \<and>
   (\<exists>cl' c'. runReceivedConn no_skey_env example_str6 example_client_one example_connection
               = Inr (cl', c') \<and>
             effects cl' = [CounterAdd ''handshakes received encrypted'',
                            CounterAdd ''received handshake for unloaded torrent''])"
  using receiveHandshakes_no_skey_match
    [of no_skey_env example_client_one example_connection example_str6]
  by (simp add: no_skey_env_def example_conn_env_def example_client_one_def example_client_def
      emit_def onBadAccept_def Let_def)

lemma attempts_append: "attempts (xs @ ys) = attempts xs @ attempts ys"
  by (induction xs rule: attempts.induct) simp_all

lemma connBTHandshake_frame:
  "connBTHandshake env cl c ih = (cl', r) \<Longrightarrow> cl' = emit [CallBTHandshake] cl"
  by (auto simp: connBTHandshake_def Let_def split: if_splits)

lemma initiateHandshakes_frame:
  assumes "initiateHandshakes env cl c t = (cl', r)"
  shows "config cl' = config cl \<and> attempts (effects cl') = attempts (effects cl) \<and>
         (headerEncrypted c \<longrightarrow>
            CallMseInitiate (if ForceEncryption (config cl) then CryptoMethodRC4
                             else if DisableEncryption (config cl) then CryptoMethodPlaintext
                             else AllSupportedCrypto) \<in> set (effects cl'))"
  using assms
  by (auto simp: initiateHandshakes_def connBTHandshake_def Let_def emit_def attempts_append
      split: if_splits prod.splits)

lemma handshakesConnection_frame:
  assumes "handshakesConnection env cl nc t b raddr netw = Inr (cl', r)"
  shows "config cl' = config cl \<and> attempts (effects cl') = attempts (effects cl) \<and>
         (b \<longrightarrow>
            CallMseInitiate (if ForceEncryption (config cl) then CryptoMethodRC4
                             else if DisableEncryption (config cl) then CryptoMethodPlaintext
                             else AllSupportedCrypto) \<in> set (effects cl'))"
proof -
  obtain cl1 c1 ok err where i:
    "initiateHandshakes env cl ((newConnection nc True raddr netw)\<lparr>headerEncrypted := b\<rparr>) t
       = (cl1, c1, ok, err)"
    by (metis prod_cases4)
  have "cl' = cl1" using assms i
    by (auto simp: handshakesConnection_def Let_def split: option.splits)
  then show ?thesis using initiateHandshakes_frame [OF i] by simp
qed

lemma establishOutgoingConnEx_frame:
  assumes "establishOutgoingConnEx env cl t addr b = Inr (cl', r)"
  shows "config cl' = config cl \<and> attempts (effects cl') = attempts (effects cl) @ [b] \<and>
         (b \<and> dialFirst env (emit [OutgoingAttempt b, CallDialFirst] cl) addr \<noteq> None \<longrightarrow>
            CallMseInitiate (if ForceEncryption (config cl) then CryptoMethodRC4
                             else if DisableEncryption (config cl) then CryptoMethodPlaintext
                             else AllSupportedCrypto) \<in> set (effects cl'))"
proof (cases "dialFirst env (emit [OutgoingAttempt b, CallDialFirst] cl) addr")
  case None
  then show ?thesis using assms
    by (auto simp: establishOutgoingConnEx_def Let_def emit_def attempts_append)
next
  case (Some a)
  obtain nc netw where a: "a = (nc, netw)" by (cases a)
  obtain cl2 c err where h:
    "handshakesConnection env (emit [OutgoingAttempt b, CallDialFirst] cl) nc t b addr netw
       = Inr (cl2, c, err)"
    using assms Some a
    by (auto simp: establishOutgoingConnEx_def Let_def split: sum.splits)
  have f: "config cl2 = config cl \<and> attempts (effects cl2) = attempts (effects cl) @ [b] \<and>
         (b \<longrightarrow>
            CallMseInitiate (if ForceEncryption (config cl) then CryptoMethodRC4
                             else if DisableEncryption (config cl) then CryptoMethodPlaintext
                             else AllSupportedCrypto) \<in> set (effects cl2))"
    using handshakesConnection_frame [OF h] by (auto simp: emit_def attempts_append)
  have "cl' = cl2 \<or> cl' = emit [NetConnClose (handle nc)] cl2"
    using assms Some a h by (auto simp: establishOutgoingConnEx_def Let_def split: if_splits)
  then show ?thesis using f by (auto simp: emit_def attempts_append)
qed

text \<open>
  Where the configuration sets \<open>ForceEncryption\<close> and neither \<open>DisableEncryption\<close>
  nor \<open>PreferNoEncryption\<close>, \<open>establishOutgoingConn\<close> makes exactly one attempt, with
  the obfuscated header (and, once the dial has given a connection, with
  \<open>mse.InitiateHandshake\<close> offering RC4 only), and returns what that attempt returns:
  if it fails there is no plaintext retry and no established connection.
\<close>

theorem establishOutgoingConn_force_encryption:
  assumes "ForceEncryption (config cl)" and "\<not> DisableEncryption (config cl)"
    and "\<not> PreferNoEncryption (config cl)"
  shows "establishOutgoingConn env cl t addr =
           (case establishOutgoingConnEx env
                   (emit [CounterAdd ''establish outgoing connection''] cl) t addr True of
              Inl p \<Rightarrow> Inl p
            | Inr (cl1, c, err) \<Rightarrow>
                Inr ((if err = None \<and> c \<noteq> None
                      then emit [CounterAdd ''initiated conn with preferred header obfuscation''] cl1
                      else cl1), c, err)) \<and>
         (\<forall>cl' c err. establishOutgoingConn env cl t addr = Inr (cl', c, err) \<longrightarrow>
            attempts (effects cl') = attempts (effects cl) @ [True] \<and>
            (dialFirst env (emit [OutgoingAttempt True, CallDialFirst]
                              (emit [CounterAdd ''establish outgoing connection''] cl)) addr \<noteq> None
               \<longrightarrow> CallMseInitiate CryptoMethodRC4 \<in> set (effects cl')))"
proof -
  let ?cl0 = "emit [CounterAdd ''establish outgoing connection''] cl"
  have c0: "config ?cl0 = config cl" by (simp add: emit_def)
  have a0: "attempts (effects ?cl0) = attempts (effects cl)"
    by (simp add: emit_def attempts_append)
  show ?thesis
  proof (cases "establishOutgoingConnEx env ?cl0 t addr True")
    case (Inl p)
    then show ?thesis using assms c0 by (simp add: establishOutgoingConn_def Let_def)
  next
    case (Inr r)
    obtain cl1 c err where r: "r = (cl1, c, err)" by (cases r)
    have f: "config cl1 = config cl \<and> attempts (effects cl1) = attempts (effects cl) @ [True] \<and>
         (dialFirst env (emit [OutgoingAttempt True, CallDialFirst] ?cl0) addr \<noteq> None
            \<longrightarrow> CallMseInitiate CryptoMethodRC4 \<in> set (effects cl1))"
      using establishOutgoingConnEx_frame [of env ?cl0 t addr True cl1 "(c, err)"] Inr r c0 a0 assms
      by simp
    show ?thesis using assms c0 Inr r f
      by (auto simp: establishOutgoingConn_def Let_def emit_def attempts_append)
  qed
qed


theorem establishOutgoingConn_force_encryption_witness:
  "\<exists>cl'. establishOutgoingConn plaintext_only_env
            (example_client_one\<lparr>config := example_config\<lparr>ForceEncryption := True\<rparr>\<rparr>)
            0 example_addr = Inr (cl', None, Some (ExternalError 1)) \<and>
         attempts (effects cl') = [True] \<and> CallMseInitiate CryptoMethodRC4 \<in> set (effects cl')"
proof -
  let ?cl = "example_client_one\<lparr>config := example_config\<lparr>ForceEncryption := True\<rparr>\<rparr>"
  have h: "ForceEncryption (config ?cl)" "\<not> DisableEncryption (config ?cl)"
    "\<not> PreferNoEncryption (config ?cl)"
    by (simp_all add: example_config_def)
  have ex: "establishOutgoingConnEx plaintext_only_env
              (emit [CounterAdd ''establish outgoing connection''] ?cl) 0 example_addr True
            = Inr (emit [NetConnClose 1]
                     (emit [CallMseInitiate CryptoMethodRC4]
                        (emit [OutgoingAttempt True, CallDialFirst]
                           (emit [CounterAdd ''establish outgoing connection''] ?cl))),
                   None, Some (ExternalError 1))"
    by (simp add: establishOutgoingConnEx_def handshakesConnection_def initiateHandshakes_def
        plaintext_only_env_def example_conn_env_def Let_def example_config_def
        example_netconn_def newConnection_def emit_def)
  have d: "dialFirst plaintext_only_env
             (emit [OutgoingAttempt True, CallDialFirst]
                (emit [CounterAdd ''establish outgoing connection''] ?cl)) example_addr \<noteq> None"
    by (simp add: plaintext_only_env_def example_conn_env_def)
  from establishOutgoingConn_force_encryption [OF h, of plaintext_only_env 0 example_addr]
  show ?thesis using ex d
    by (simp add: emit_def example_client_one_def example_client_def)
qed

text \<open>
  Claim C6 is what the code means to do and, on one kind of configuration, does not.
  Its comment under \<open>if cl.config.ForceEncryption\<close> reads "We should have just tried
  with an obfuscated header", and it asserts as much with
  \<open>panic(cl.config.EncryptionPolicy)\<close>; the receiving side refuses a connection that is
  not encrypted when \<open>ForceEncryption\<close> is set. But \<open>obfuscatedHeaderFirst\<close> is computed
  from \<open>DisableEncryption\<close> and \<open>PreferNoEncryption\<close> alone. With \<open>ForceEncryption\<close>
  and \<open>PreferNoEncryption\<close> both set, the first attempt has a plaintext header: when no
  dial succeeds the function panics with the encryption policy instead of returning,
  and when the plaintext handshake succeeds it returns an established connection whose
  header is not encrypted, \<open>mse.InitiateHandshake\<close> never having been called.
\<close>

theorem establishOutgoingConn_force_encryption_plaintext_first:
  "ForceEncryption (config (example_client_one
      \<lparr>config := example_config\<lparr>ForceEncryption := True, PreferNoEncryption := True\<rparr>\<rparr>)) \<and>
   establishOutgoingConn no_dial_env
     (example_client_one
        \<lparr>config := example_config\<lparr>ForceEncryption := True, PreferNoEncryption := True\<rparr>\<rparr>)
     0 example_addr = Inl (PanicValue ''EncryptionPolicy'') \<and>
   (case establishOutgoingConn example_conn_env
           (example_client_one
              \<lparr>config := example_config\<lparr>ForceEncryption := True, PreferNoEncryption := True\<rparr>\<rparr>)
           0 example_addr of
      Inl p \<Rightarrow> False
    | Inr (cl', c, err) \<Rightarrow>
        err = None \<and> map_option headerEncrypted c = Some False \<and>
        attempts (effects cl') = [False] \<and>
        CallMseInitiate CryptoMethodRC4 \<notin> set (effects cl'))"
  by (simp add: establishOutgoingConn_def establishOutgoingConnEx_def handshakesConnection_def
      initiateHandshakes_def connBTHandshake_def no_dial_env_def example_conn_env_def Let_def
      example_config_def example_netconn_def newConnection_def emit_def
      example_client_one_def example_client_def newTorrent_def example_hash_def)

section \<open>Metadata extension messages\<close>

text \<open>
  Claim C2, as stated, fails in its second half: the \<open>Reject\<close> case of
  \<open>gotMetadataExtensionMsg\<close> is \<open>return nil\<close> and nothing else. With a request
  pending for piece 0 and a payload that decodes to a \<open>Reject\<close> for piece 0, the
  connection comes back unchanged: the flag is still set.
\<close>

theorem gotMetadataExtensionMsg_reject_counterexample:
  "requestedMetadataPiece (example_connection\<lparr>metadataRequests := [True]\<rparr>) 0 \<and>
   gotMetadataExtensionMsg reject_piece0_env example_client_one reject_payload 0
       (example_connection\<lparr>metadataRequests := [True]\<rparr>)
     = Inr (example_client_one, example_connection\<lparr>metadataRequests := [True]\<rparr>, None) \<and>
   metadataRequests (example_connection\<lparr>metadataRequests := [True]\<rparr>) ! 0 \<noteq> False"
  by (simp add: requestedMetadataPiece_def gotMetadataExtensionMsg_def reject_piece0_env_def
      map_get_def DataMetadataExtensionMsgType_def RequestMetadataExtensionMsgType_def
      RejectMetadataExtensionMsgType_def)

text \<open>
  Claim C2, amended: when \<open>gotMetadataExtensionMsg\<close> processes a payload that
  decodes (trailing bytes or not) to a message whose \<open>msg_type\<close> is \<open>Reject\<close>, it
  returns no error and changes neither the connection nor the client; a metadata
  request that was pending for a piece on that connection stays pending.
\<close>

theorem gotMetadataExtensionMsg_reject:
  assumes "bencode_Unmarshal env payload = (uerr, d)"
    and "uerr = None \<or> uerr = Some ErrUnusedTrailingBytes"
    and "d ''msg_type'' = Some RejectMetadataExtensionMsgType"
  shows "gotMetadataExtensionMsg env cl payload t c = Inr (cl, c, None) \<and>
         (requestedMetadataPiece c p \<longrightarrow>
            (\<forall>cl' c' err. gotMetadataExtensionMsg env cl payload t c = Inr (cl', c', err) \<longrightarrow>
               requestedMetadataPiece c' p))"
  using assms
  by (auto simp: gotMetadataExtensionMsg_def DataMetadataExtensionMsgType_def
      RequestMetadataExtensionMsgType_def RejectMetadataExtensionMsgType_def)

theorem gotMetadataExtensionMsg_reject_witness:
  "gotMetadataExtensionMsg reject_piece0_env example_client_one reject_payload 0
       (example_connection\<lparr>metadataRequests := [True]\<rparr>)
     = Inr (example_client_one, example_connection\<lparr>metadataRequests := [True]\<rparr>, None)"
  using gotMetadataExtensionMsg_reject [where env = reject_piece0_env and payload = reject_payload
      and uerr = None and d = "[''msg_type'' \<mapsto> 2, ''piece'' \<mapsto> 0]"
      and cl = example_client_one and t = 0
      and c = "example_connection\<lparr>metadataRequests := [True]\<rparr>" and p = 0]
  by (simp add: reject_piece0_env_def RejectMetadataExtensionMsgType_def)


end
